theory Spec2Isabelle
  imports Main "HOL-Library.AList"
begin

section \<open>JavaScript values\<close>

text \<open>
  The options handled by \<^verbatim>\<open>src/utils/OptionUtils.js\<close> are dynamically typed JavaScript
  values. A plain object is an association list in insertion order (an own property is a
  key of the list). An array, a function and a regular expression are objects too: besides
  its elements (its name and number of declared parameters; its source text) each carries
  the list of the further own properties attached to it, empty for a literal. Reading a
  property that is neither an own nor an inherited one gives \<open>Undefined\<close>.

  Values are trees: no object occurs twice in the layers, objects have no accessor
  properties and no own \<^verbatim>\<open>__proto__\<close> key, and numbers are integers. A list of a layer
  has no hole and no \<^verbatim>\<open>undefined\<close> element, and an own \<^verbatim>\<open>length\<close> property of a plain
  object or regular expression, if there is one, is a non-negative integer. The limits of
  an engine (call stack depth, array length, memory) are not modelled.
\<close>

datatype jsval =
    Undefined
  | Null
  | Bool bool
  | Num int
  | Str string
  | Regex string "(string \<times> jsval) list"
  | Fn string nat "(string \<times> jsval) list"
  | Arr "jsval list" "(string \<times> jsval) list"
  | Obj "(string \<times> jsval) list"

type_synonym jsobj = "(string \<times> jsval) list"

text \<open>
  What the code can throw: a \<open>TypeError\<close> of the language itself, or whatever a
  collaborator (path, glob, log4js, a function of the configuration) throws.
\<close>

datatype error = TypeError | Thrown string

fun js_truthy :: "jsval \<Rightarrow> bool" where
  "js_truthy Undefined = False"
| "js_truthy Null = False"
| "js_truthy (Bool b) = b"
| "js_truthy (Num n) = (n \<noteq> 0)"
| "js_truthy (Str s) = (s \<noteq> [])"
| "js_truthy v = True"

text \<open>Whether \<open>k\<close> is an own property of the object: the built-in test.\<close>

definition ownKey :: "jsobj \<Rightarrow> string \<Rightarrow> bool" where
  "ownKey opts k = (k \<in> set (map fst opts))"

text \<open>
  \<^verbatim>\<open>opts.k\<close> and \<^verbatim>\<open>opts[k]\<close> for a name \<open>k\<close> that the prototype of plain objects does not
  define, as are all the names the module reads (\<^verbatim>\<open>code\<close>, \<^verbatim>\<open>basePath\<close>, \<^verbatim>\<open>karma\<close>, ...).
\<close>

definition js_get :: "jsobj \<Rightarrow> string \<Rightarrow> jsval" where
  "js_get opts k = (case map_of opts k of None \<Rightarrow> Undefined | Some v \<Rightarrow> v)"

text \<open>
  The members a plain object inherits from \<^verbatim>\<open>Object.prototype\<close>: functions, each with
  the number of its declared parameters. \<open>js_read obj k\<close> is \<^verbatim>\<open>obj[k]\<close> for an arbitrary
  name: the own property, else the inherited member, else \<^verbatim>\<open>undefined\<close>.
\<close>

definition objectPrototype :: jsobj where
  "objectPrototype =
    [(''constructor'', Fn ''Object'' 1 []),
     (''hasOwnProperty'', Fn ''hasOwnProperty'' 1 []),
     (''isPrototypeOf'', Fn ''isPrototypeOf'' 1 []),
     (''propertyIsEnumerable'', Fn ''propertyIsEnumerable'' 1 []),
     (''toLocaleString'', Fn ''toLocaleString'' 0 []),
     (''toString'', Fn ''toString'' 0 []),
     (''valueOf'', Fn ''valueOf'' 0 []),
     (''__defineGetter__'', Fn ''__defineGetter__'' 2 []),
     (''__defineSetter__'', Fn ''__defineSetter__'' 2 []),
     (''__lookupGetter__'', Fn ''__lookupGetter__'' 1 []),
     (''__lookupSetter__'', Fn ''__lookupSetter__'' 1 [])]"

definition js_read :: "jsobj \<Rightarrow> string \<Rightarrow> jsval" where
  "js_read obj k = (case map_of obj k of None \<Rightarrow> js_get objectPrototype k | Some v \<Rightarrow> v)"

definition js_set :: "jsobj \<Rightarrow> string \<Rightarrow> jsval \<Rightarrow> jsobj" where
  "js_set opts k v = AList.update k v opts"

text \<open>
  The own properties of a value that is an object beyond its elements, and the value with
  these properties replaced. A primitive has none.
\<close>

fun ownProps :: "jsval \<Rightarrow> jsobj option" where
  "ownProps (Obj kvs) = Some kvs"
| "ownProps (Arr xs ps) = Some ps"
| "ownProps (Fn f n ps) = Some ps"
| "ownProps (Regex r ps) = Some ps"
| "ownProps v = None"

fun withProps :: "jsval \<Rightarrow> jsobj \<Rightarrow> jsval" where
  "withProps (Obj kvs) ps' = Obj ps'"
| "withProps (Arr xs ps) ps' = Arr xs ps'"
| "withProps (Fn f n ps) ps' = Fn f n ps'"
| "withProps (Regex r ps) ps' = Regex r ps'"
| "withProps v ps' = v"

text \<open>
  \<^verbatim>\<open>v.p\<close> for a property name \<open>p\<close> that no built-in prototype defines and that is neither
  \<^verbatim>\<open>length\<close> nor an index.
\<close>

fun js_member :: "jsval \<Rightarrow> string \<Rightarrow> error + jsval" where
  "js_member Undefined p = Inl TypeError"
| "js_member Null p = Inl TypeError"
| "js_member v p = (case ownProps v of Some ps \<Rightarrow> Inr (js_get ps p) | None \<Rightarrow> Inr Undefined)"

text \<open>
  \<^verbatim>\<open>v.p = x\<close> in strict mode (the file starts with \<^verbatim>\<open>'use strict'\<close>), for such a name:
  the property is stored on an object; creating a property on a primitive is a
  \<open>TypeError\<close>.
\<close>

definition js_set_member :: "jsval \<Rightarrow> string \<Rightarrow> jsval \<Rightarrow> error + jsval" where
  "js_set_member v p x =
    (case ownProps v of Some ps \<Rightarrow> Inr (withProps v (js_set ps p x)) | None \<Rightarrow> Inl TypeError)"

text \<open>\<^verbatim>\<open>v.length\<close>.\<close>

fun js_length :: "jsval \<Rightarrow> error + jsval" where
  "js_length Undefined = Inl TypeError"
| "js_length Null = Inl TypeError"
| "js_length (Arr xs ps) = Inr (Num (int (length xs)))"
| "js_length (Str s) = Inr (Num (int (length s)))"
| "js_length (Fn f n ps) = Inr (Num (int n))"
| "js_length (Obj kvs) = Inr (js_get kvs ''length'')"
| "js_length (Regex r ps) = Inr (js_get ps ''length'')"
| "js_length v = Inr Undefined"

text \<open>\<^verbatim>\<open>xs.concat(v)\<close>: the elements of an array argument are spliced in, anything else is appended.\<close>

definition js_concat :: "jsval list \<Rightarrow> jsval \<Rightarrow> jsval list" where
  "js_concat xs v = (case v of Arr ys ps \<Rightarrow> xs @ ys | _ \<Rightarrow> xs @ [v])"

text \<open>The property name of an index: its decimal digits.\<close>

fun indexKey :: "nat \<Rightarrow> string" where
  "indexKey n =
    (if n < 10 then [char_of (48 + n)]
     else indexKey (n div 10) @ [char_of (48 + n mod 10)])"

text \<open>\<^verbatim>\<open>v[i]\<close> for an index \<open>i\<close>.\<close>

fun js_index :: "jsval \<Rightarrow> nat \<Rightarrow> jsval" where
  "js_index (Arr xs ps) i = (if i < length xs then xs ! i else Undefined)"
| "js_index (Str s) i = (if i < length s then Str [s ! i] else Undefined)"
| "js_index v i = (case ownProps v of Some ps \<Rightarrow> js_get ps (indexKey i) | None \<Rightarrow> Undefined)"

declare indexKey.simps [simp del]

section \<open>The lodash functions the module calls\<close>

text \<open>
  \<^verbatim>\<open>_.merge\<close> is lodash's (version 3), not this module's; the model follows what the
  library does for the values of this model.

  A value is array-like when it is neither \<^verbatim>\<open>undefined\<close> nor \<^verbatim>\<open>null\<close> and its
  \<^verbatim>\<open>length\<close> is a non-negative integer up to \<open>2\<^sup>5\<^sup>3 - 1\<close>: an array, a string, a function,
  and an object whose \<^verbatim>\<open>length\<close> property is such a number.
\<close>

definition arrayLikeLength :: "jsval \<Rightarrow> nat option" where
  "arrayLikeLength v =
    (case js_length v of
       Inr (Num n) \<Rightarrow> if 0 \<le> n \<and> n \<le> 9007199254740991 then Some (nat n) else None
     | _ \<Rightarrow> None)"

text \<open>\<^verbatim>\<open>arrayCopy(v)\<close>: the array of \<^verbatim>\<open>v[0]\<close>, ..., \<^verbatim>\<open>v[length - 1]\<close>.\<close>

definition arrayCopy :: "jsval \<Rightarrow> nat \<Rightarrow> jsval list" where
  "arrayCopy v n = map (js_index v) [0..<n]"

text \<open>
  The array a list source is merged into, given what the destination holds at the key:
  the destination's own array; otherwise a copy of an array-like value; otherwise a fresh
  empty array. With it, the further own properties the array carries.
\<close>

definition arrayTarget :: "jsval \<Rightarrow> jsval list \<times> jsobj" where
  "arrayTarget dv =
    (case dv of
       Arr ys qs \<Rightarrow> (ys, qs)
     | _ \<Rightarrow> (case arrayLikeLength dv of Some n \<Rightarrow> (arrayCopy dv n, []) | None \<Rightarrow> ([], [])))"

text \<open>The object a plain-object source is merged into: the destination's own plain object, or a fresh one.\<close>

definition objectTarget :: "jsval \<Rightarrow> jsobj" where
  "objectTarget dv = (case dv of Obj d \<Rightarrow> d | _ \<Rightarrow> [])"

text \<open>
  \<open>merge_value dv s\<close> is the value stored for a source value \<open>s\<close> when the destination
  reads \<open>dv\<close> at that key or index (\<open>Undefined\<close>: nothing there). A list source is merged
  index by index into the array target, a plain-object source key by key into the object
  target, and every other source value is stored as it is. \<open>baseMerge\<close> merges a
  plain-object source into an object: a property whose source value is \<^verbatim>\<open>undefined\<close>
  assigns nothing. \<open>baseMerge_arr\<close> merges a list source into an array: every index of
  the source is assigned, and the elements beyond the source stay. A container is always
  merged into a container of the destination, never shared with the source, so the merged
  options own every plain object and list they hold; functions and regular expressions
  are stored as they are.
\<close>

fun merge_value :: "jsval \<Rightarrow> jsval \<Rightarrow> jsval"
  and baseMerge :: "jsobj \<Rightarrow> jsobj \<Rightarrow> jsobj"
  and baseMerge_arr :: "jsval list \<Rightarrow> jsval list \<Rightarrow> jsval list"
where
  "merge_value dv (Arr xs ps) =
     Arr (baseMerge_arr (fst (arrayTarget dv)) xs) (snd (arrayTarget dv))"
| "merge_value dv (Obj kvs) = Obj (baseMerge (objectTarget dv) kvs)"
| "merge_value dv s = s"
| "baseMerge obj [] = obj"
| "baseMerge obj ((k, s) # rest) =
     baseMerge (if s = Undefined then obj else js_set obj k (merge_value (js_read obj k) s)) rest"
| "baseMerge_arr ds [] = ds"
| "baseMerge_arr [] (s # ss) = merge_value Undefined s # baseMerge_arr [] ss"
| "baseMerge_arr (d # ds) (s # ss) = merge_value d s # baseMerge_arr ds ss"

text \<open>
  \<^verbatim>\<open>_.merge(object, s1, s2, ...)\<close>: the sources are merged in, left to right; a source
  that is \<^verbatim>\<open>undefined\<close> (\<open>None\<close>) is skipped.
\<close>

fun lodash_merge :: "jsobj \<Rightarrow> jsobj option list \<Rightarrow> jsobj" where
  "lodash_merge obj [] = obj"
| "lodash_merge obj (None # srcs) = lodash_merge obj srcs"
| "lodash_merge obj (Some s # srcs) = lodash_merge (baseMerge obj s) srcs"

text \<open>
  \<^verbatim>\<open>_.union(a, b)\<close>: the values of \<open>a\<close> then \<open>b\<close>, each kept where it is first seen.
\<close>

fun baseUniq :: "'a list \<Rightarrow> 'a list \<Rightarrow> 'a list" where
  "baseUniq seen [] = seen"
| "baseUniq seen (x # xs) = baseUniq (if x \<in> set seen then seen else seen @ [x]) xs"

definition lodash_union :: "'a list \<Rightarrow> 'a list \<Rightarrow> 'a list" where
  "lodash_union a b = baseUniq [] (a @ b)"

section \<open>Collaborators\<close>

text \<open>
  The path library, the glob matcher (with the fixed options \<^verbatim>\<open>{dot: true, nodir: true}\<close>:
  dotfiles matched, directories left out) and the logging backend are parameters: each may
  throw. \<open>log4js_setup\<close> stands for the two logging calls of \<^verbatim>\<open>getOptions\<close>, given the
  merged \<^verbatim>\<open>logLevel\<close>. \<open>js_call f this args\<close> is the call of a function value of the
  configuration: it returns a value or throws, and is taken to leave the options as they
  are.
\<close>

record env =
  path_join :: "jsval \<Rightarrow> jsval \<Rightarrow> error + string"
  glob_sync :: "string \<Rightarrow> error + string list"
  log4js_setup :: "jsval \<Rightarrow> error option"
  js_call :: "jsval \<Rightarrow> jsval \<Rightarrow> jsval list \<Rightarrow> error + jsval"

text \<open>
  The process-wide state a call leaves behind: the level last handed to the logger and
  the messages passed to \<^verbatim>\<open>grunt.warn\<close>, oldest first.
\<close>

record host =
  log_level :: "jsval option"
  warnings :: "string list"

section \<open>OptionUtils\<close>

definition CALL_DONE :: jsval where
  "CALL_DONE = Fn ''CALL_DONE'' 1 []"

definition DEFAULT_OPTIONS :: jsobj where
  "DEFAULT_OPTIONS =
    [(''before'', CALL_DONE),
     (''beforeEach'', CALL_DONE),
     (''test'', CALL_DONE),
     (''afterEach'', CALL_DONE),
     (''after'', CALL_DONE),
     (''basePath'', Str ''.''),
     (''testFramework'', Str ''karma''),
     (''logLevel'', Str ''INFO''),
     (''maxReportedMutationLength'', Num 80),
     (''mutateProductionCode'', Bool False)]"

definition DEFAULT_REPORTER :: jsval where
  "DEFAULT_REPORTER = Obj [(''console'', Bool True)]"

definition DEFAULT_IGNORE :: jsval where
  \<open>DEFAULT_IGNORE = Regex ''('use strict'|"use strict");'' []\<close>

text \<open>
  \<^verbatim>\<open>opts.hasOwnProperty(k)\<close>: a method call on the options object. Without an own
  property of that name the built-in test answers; an own property named
  \<^verbatim>\<open>hasOwnProperty\<close> shadows it, and then the call is that of the function it holds, or
  a \<open>TypeError\<close> when it holds no function.
\<close>

definition hasOwnProperty :: "env \<Rightarrow> jsobj \<Rightarrow> string \<Rightarrow> error + jsval" where
  "hasOwnProperty env opts k =
    (case map_of opts ''hasOwnProperty'' of
       None \<Rightarrow> Inr (Bool (ownKey opts k))
     | Some f \<Rightarrow>
        (case f of
           Fn name n ps \<Rightarrow> js_call env f (Obj opts) [Str k]
         | _ \<Rightarrow> Inl TypeError))"

definition areRequiredOptionsSet :: "env \<Rightarrow> jsobj \<Rightarrow> error + string option" where
  "areRequiredOptionsSet env opts =
    (case hasOwnProperty env opts ''code'' of
       Inl e \<Rightarrow> Inl e
     | Inr hasCode \<Rightarrow>
    (if \<not> js_truthy hasCode then Inr (Some ''Options has no own code property'')
     else (case hasOwnProperty env opts ''specs'' of
       Inl e \<Rightarrow> Inl e
     | Inr hasSpecs \<Rightarrow>
    (if \<not> js_truthy hasSpecs then Inr (Some ''Options has no own specs property'')
     else (case hasOwnProperty env opts ''mutate'' of
       Inl e \<Rightarrow> Inl e
     | Inr hasMutate \<Rightarrow>
    (if \<not> js_truthy hasMutate then Inr (Some ''Options has no own mutate property'')
     else (case js_length (js_get opts ''code'') of
        Inl e \<Rightarrow> Inl e
      | Inr c \<Rightarrow>
         (if c = Num 0 then Inr (Some ''Code property is empty'')
          else (case js_length (js_get opts ''specs'') of
             Inl e \<Rightarrow> Inl e
           | Inr s \<Rightarrow>
              (if s = Num 0 then Inr (Some ''Specs property is empty'')
               else (case js_length (js_get opts ''mutate'') of
                  Inl e \<Rightarrow> Inl e
                | Inr m \<Rightarrow>
                   (if m = Num 0 then Inr (Some ''Mutate property is empty'')
                    else Inr None))))))))))))"

definition ensureReportersConfig :: "env \<Rightarrow> jsobj \<Rightarrow> error + jsobj" where
  "ensureReportersConfig env opts =
    (case hasOwnProperty env opts ''reporters'' of
       Inl e \<Rightarrow> Inl e
     | Inr hasReporters \<Rightarrow>
        (if \<not> js_truthy hasReporters then Inr (js_set opts ''reporters'' DEFAULT_REPORTER)
         else Inr opts))"

definition ensureIgnoreConfig :: "jsobj \<Rightarrow> jsobj" where
  "ensureIgnoreConfig opts =
    (if \<not> js_truthy (js_get opts ''discardDefaultIgnore'')
     then js_set opts ''ignore''
            (if js_truthy (js_get opts ''ignore'')
             then Arr (js_concat [DEFAULT_IGNORE] (js_get opts ''ignore'')) []
             else DEFAULT_IGNORE)
     else opts)"

text \<open>\<^verbatim>\<open>files = files ? _.isArray(files) ? files : [files] : []\<close>\<close>

definition fileList :: "jsval \<Rightarrow> jsval list" where
  "fileList files =
    (if js_truthy files then (case files of Arr xs ps \<Rightarrow> xs | _ \<Rightarrow> [files]) else [])"

text \<open>The \<^verbatim>\<open>_.forEach\<close> loop of \<^verbatim>\<open>expandFiles\<close>, with its accumulator.\<close>

fun expandLoop :: "env \<Rightarrow> jsval \<Rightarrow> jsval list \<Rightarrow> string list \<Rightarrow> error + string list" where
  "expandLoop env basePath [] expandedFiles = Inr expandedFiles"
| "expandLoop env basePath (fileName # rest) expandedFiles =
    (case path_join env basePath fileName of
       Inl e \<Rightarrow> Inl e
     | Inr p \<Rightarrow>
        (case glob_sync env p of
           Inl e \<Rightarrow> Inl e
         | Inr found \<Rightarrow> expandLoop env basePath rest (lodash_union expandedFiles found)))"

definition expandFiles :: "env \<Rightarrow> jsval \<Rightarrow> jsval \<Rightarrow> error + string list" where
  "expandFiles env files basePath = expandLoop env basePath (fileList files) []"

text \<open>An expanded file list as the array of strings the code stores.\<close>

definition pathArray :: "string list \<Rightarrow> jsval" where
  "pathArray ps = Arr (map Str ps) []"

text \<open>Line 112 of \<^verbatim>\<open>getOptions\<close>: \<^verbatim>\<open>_.merge({}, DEFAULT_OPTIONS, globalOpts, localOpts)\<close>.\<close>

definition mergedOptions :: "jsobj option \<Rightarrow> jsobj option \<Rightarrow> jsobj" where
  "mergedOptions globalOpts localOpts =
     lodash_merge [] [Some DEFAULT_OPTIONS, globalOpts, localOpts]"

text \<open>
  Lines 118 to 124 of \<^verbatim>\<open>getOptions\<close>: the three assignments of expanded lists, then the
  guarded assignment to \<^verbatim>\<open>opts.karma.notIncluded\<close>, whose right-hand side is evaluated
  before the property is stored.
\<close>

definition expandField :: "env \<Rightarrow> string \<Rightarrow> jsobj \<Rightarrow> error + jsobj" where
  "expandField env k opts =
    (case expandFiles env (js_get opts k) (js_get opts ''basePath'') of
       Inl e \<Rightarrow> Inl e
     | Inr ps \<Rightarrow> Inr (js_set opts k (pathArray ps)))"

definition expandKarma :: "env \<Rightarrow> jsobj \<Rightarrow> error + jsobj" where
  "expandKarma env opts =
    (if js_truthy (js_get opts ''karma'') then
       (case js_member (js_get opts ''karma'') ''notIncluded'' of
          Inl e \<Rightarrow> Inl e
        | Inr ni \<Rightarrow>
           (case expandFiles env ni (js_get opts ''basePath'') of
              Inl e \<Rightarrow> Inl e
            | Inr ps \<Rightarrow>
               (case js_set_member (js_get opts ''karma'') ''notIncluded'' (pathArray ps) of
                  Inl e \<Rightarrow> Inl e
                | Inr karma \<Rightarrow> Inr (js_set opts ''karma'' karma))))
     else Inr opts)"

definition expandOptions :: "env \<Rightarrow> jsobj \<Rightarrow> error + jsobj" where
  "expandOptions env opts =
    (case expandField env ''code'' opts of
       Inl e \<Rightarrow> Inl e
     | Inr opts1 \<Rightarrow>
        (case expandField env ''specs'' opts1 of
           Inl e \<Rightarrow> Inl e
         | Inr opts2 \<Rightarrow>
            (case expandField env ''mutate'' opts2 of
               Inl e \<Rightarrow> Inl e
             | Inr opts3 \<Rightarrow> expandKarma env opts3)))"

definition warningPrefix :: string where
  "warningPrefix = ''Not all required options have been set properly. ''"

text \<open>
  \<^verbatim>\<open>getOptions(grunt, task)\<close>. The two option layers are what
  \<^verbatim>\<open>grunt.config(...).options\<close> reads for the task and for its target (\<open>None\<close>: no
  options there). The result is the returned value (\<open>Null\<close> for the failure sentinel) or
  the error thrown, with the state the call leaves.
\<close>

definition getOptions ::
  "env \<Rightarrow> jsobj option \<Rightarrow> jsobj option \<Rightarrow> host \<Rightarrow> (error + jsval) \<times> host" where
  "getOptions env globalOpts localOpts h =
    (let opts = mergedOptions globalOpts localOpts in
     case log4js_setup env (js_get opts ''logLevel'') of
       Some e \<Rightarrow> (Inl e, h)
     | None \<Rightarrow>
        (let h1 = h\<lparr>log_level := Some (js_get opts ''logLevel'')\<rparr> in
         case expandOptions env opts of
           Inl e \<Rightarrow> (Inl e, h1)
         | Inr opts' \<Rightarrow>
            (case areRequiredOptionsSet env opts' of
               Inl e \<Rightarrow> (Inl e, h1)
             | Inr (Some requiredOptionsSetErr) \<Rightarrow>
                 (Inr Null, h1\<lparr>warnings := warnings h1 @ [warningPrefix @ requiredOptionsSetErr]\<rparr>)
             | Inr None \<Rightarrow>
                 (case ensureReportersConfig env opts' of
                    Inl e \<Rightarrow> (Inl e, h1)
                  | Inr opts'' \<Rightarrow> (Inr (Obj (ensureIgnoreConfig opts'')), h1)))))"

section \<open>Notions of the specification\<close>

text \<open>
  The specification describes expansion as a union with set semantics in first-seen order.
  \<open>firstSeen\<close> keeps every value at its first occurrence; \<open>allMatches\<close> collects, pattern
  by pattern, what the filesystem matches for the pattern joined with the base path, and
  stops at the first pattern for which a collaborator throws.
\<close>

primrec firstSeen :: "'a list \<Rightarrow> 'a list" where
  "firstSeen [] = []"
| "firstSeen (x # xs) = x # removeAll x (firstSeen xs)"

definition patternMatches :: "env \<Rightarrow> jsval \<Rightarrow> jsval \<Rightarrow> error + string list" where
  "patternMatches env basePath p =
    (case path_join env basePath p of Inl e \<Rightarrow> Inl e | Inr q \<Rightarrow> glob_sync env q)"

fun allMatches :: "env \<Rightarrow> jsval \<Rightarrow> jsval list \<Rightarrow> error + string list list" where
  "allMatches env basePath [] = Inr []"
| "allMatches env basePath (p # ps) =
    (case patternMatches env basePath p of
       Inl e \<Rightarrow> Inl e
     | Inr m \<Rightarrow>
        (case allMatches env basePath ps of Inl e \<Rightarrow> Inl e | Inr ms \<Rightarrow> Inr (m # ms)))"

text \<open>
  The six checks of the validation rule, in the order the specification lists them, with
  the message of each. A presence check is the built-in own-property test; an emptiness
  check reads the length of the field, which throws when the field holds \<^verbatim>\<open>undefined\<close>
  or \<^verbatim>\<open>null\<close>. \<open>firstOutcome\<close> evaluates the checks one after the other and stops at
  the first that fails or throws.
\<close>

datatype required_check =
    CodePresent | SpecsPresent | MutatePresent
  | CodeNonEmpty | SpecsNonEmpty | MutateNonEmpty

definition checksInOrder :: "required_check list" where
  "checksInOrder =
     [CodePresent, SpecsPresent, MutatePresent, CodeNonEmpty, SpecsNonEmpty, MutateNonEmpty]"

definition nonEmptyField :: "jsobj \<Rightarrow> string \<Rightarrow> error + bool" where
  "nonEmptyField opts k =
    (case js_length (js_get opts k) of Inl e \<Rightarrow> Inl e | Inr n \<Rightarrow> Inr (n \<noteq> Num 0))"

fun checkPasses :: "jsobj \<Rightarrow> required_check \<Rightarrow> error + bool" where
  "checkPasses opts CodePresent = Inr (ownKey opts ''code'')"
| "checkPasses opts SpecsPresent = Inr (ownKey opts ''specs'')"
| "checkPasses opts MutatePresent = Inr (ownKey opts ''mutate'')"
| "checkPasses opts CodeNonEmpty = nonEmptyField opts ''code''"
| "checkPasses opts SpecsNonEmpty = nonEmptyField opts ''specs''"
| "checkPasses opts MutateNonEmpty = nonEmptyField opts ''mutate''"

fun failureMessage :: "required_check \<Rightarrow> string" where
  "failureMessage CodePresent = ''Options has no own code property''"
| "failureMessage SpecsPresent = ''Options has no own specs property''"
| "failureMessage MutatePresent = ''Options has no own mutate property''"
| "failureMessage CodeNonEmpty = ''Code property is empty''"
| "failureMessage SpecsNonEmpty = ''Specs property is empty''"
| "failureMessage MutateNonEmpty = ''Mutate property is empty''"

fun firstOutcome :: "jsobj \<Rightarrow> required_check list \<Rightarrow> error + required_check option" where
  "firstOutcome opts [] = Inr None"
| "firstOutcome opts (c # cs) =
    (case checkPasses opts c of
       Inl e \<Rightarrow> Inl e
     | Inr passes \<Rightarrow> if passes then firstOutcome opts cs else Inr (Some c))"

text \<open>The first check that fails, when no check throws before (\<open>None\<close>: all pass).\<close>

definition firstFailure :: "jsobj \<Rightarrow> error + required_check option" where
  "firstFailure opts = firstOutcome opts checksInOrder"


text \<open>The value a layer holds for a field, if any.\<close>

definition layerValue :: "jsobj option \<Rightarrow> string \<Rightarrow> jsval option" where
  "layerValue layer k = (case layer of None \<Rightarrow> None | Some opts \<Rightarrow> map_of opts k)"


text \<open>A field of the options a call returned (\<open>None\<close>: no options returned, or no such field).\<close>

definition resolvedField :: "(error + jsval) \<times> host \<Rightarrow> string \<Rightarrow> jsval option" where
  "resolvedField res k = (case fst res of Inr (Obj r) \<Rightarrow> map_of r k | _ \<Rightarrow> None)"

section \<open>The layers after a call\<close>






section \<open>A concrete host\<close>

text \<open>
  A filesystem with \<^verbatim>\<open>src/a.js\<close>, \<^verbatim>\<open>src/b.js\<close> and \<^verbatim>\<open>test/a.spec.js\<close>, the join of the
  POSIX path library (two strings joined by a slash and normalised: empty and \<^verbatim>\<open>.\<close>
  segments dropped, \<^verbatim>\<open>..\<close> resolved), a logger that accepts every level, and two functions
  a configuration may hold: \<^verbatim>\<open>yes\<close> returns \<^verbatim>\<open>true\<close>, \<^verbatim>\<open>no\<close> returns \<^verbatim>\<open>false\<close>; any
  other function returns \<^verbatim>\<open>undefined\<close>. The instances below are evaluated on it.
\<close>

fun splitPath :: "string \<Rightarrow> string \<Rightarrow> string list" where
  "splitPath cur [] = [rev cur]"
| "splitPath cur (c # cs) =
    (if c = CHR ''/'' then rev cur # splitPath [] cs else splitPath (c # cur) cs)"

fun normalizeArray :: "string list \<Rightarrow> bool \<Rightarrow> string list \<Rightarrow> string list" where
  "normalizeArray [] allowAboveRoot res = res"
| "normalizeArray (p # parts) allowAboveRoot res =
    (if p = [] \<or> p = ''.'' then normalizeArray parts allowAboveRoot res
     else if p = ''..'' then
       (if res \<noteq> [] \<and> last res \<noteq> ''..'' then normalizeArray parts allowAboveRoot (butlast res)
        else if allowAboveRoot then normalizeArray parts allowAboveRoot (res @ [''..''])
        else normalizeArray parts allowAboveRoot res)
     else normalizeArray parts allowAboveRoot (res @ [p]))"

fun joinSlash :: "string list \<Rightarrow> string" where
  "joinSlash [] = []"
| "joinSlash [p] = p"
| "joinSlash (p # q # ps) = p @ ''/'' @ joinSlash (q # ps)"

definition posixNormalize :: "string \<Rightarrow> string" where
  "posixNormalize path =
    (let isAbsolute = (path \<noteq> [] \<and> hd path = CHR ''/'');
         trailingSlash = (path \<noteq> [] \<and> last path = CHR ''/'');
         p = joinSlash (normalizeArray (splitPath [] path) (\<not> isAbsolute) []);
         p1 = (if p = [] \<and> \<not> isAbsolute then ''.'' else p);
         p2 = (if p1 \<noteq> [] \<and> trailingSlash then p1 @ ''/'' else p1)
     in (if isAbsolute then ''/'' else []) @ p2)"

definition fsJoin :: "jsval \<Rightarrow> jsval \<Rightarrow> error + string" where
  "fsJoin basePath fileName =
    (case (basePath, fileName) of
       (Str b, Str f) \<Rightarrow>
         Inr (posixNormalize (if b = [] then f else if f = [] then b else b @ ''/'' @ f))
     | _ \<Rightarrow> Inl TypeError)"

definition fsGlob :: "string \<Rightarrow> error + string list" where
  "fsGlob p =
    Inr (if p = ''src/*.js'' then [''src/a.js'', ''src/b.js'']
         else if p = ''src/a.js'' then [''src/a.js'']
         else if p = ''src/b.js'' then [''src/b.js'']
         else if p = ''test/*.js'' then [''test/a.spec.js'']
         else [])"

definition sampleCall :: "jsval \<Rightarrow> jsval \<Rightarrow> jsval list \<Rightarrow> error + jsval" where
  "sampleCall f this args =
    (case f of
       Fn name n ps \<Rightarrow>
         Inr (if name = ''yes'' then Bool True else if name = ''no'' then Bool False
              else Undefined)
     | _ \<Rightarrow> Inl TypeError)"

definition fsEnv :: env where
  "fsEnv = \<lparr>path_join = fsJoin, glob_sync = fsGlob, log4js_setup = (\<lambda>level. None),
            js_call = sampleCall\<rparr>"

definition host0 :: host where
  "host0 = \<lparr>log_level = None, warnings = []\<rparr>"

definition sampleOpts :: jsobj where
  "sampleOpts =
    [(''code'', Str ''src/*.js''), (''specs'', Str ''test/*.js''), (''mutate'', Str ''src/a.js'')]"

text \<open>The sample options after merge and expansion.\<close>

definition expandedSample :: jsobj where
  "expandedSample =
     DEFAULT_OPTIONS @
        [(''code'', Arr [Str ''src/a.js'', Str ''src/b.js''] []),
         (''specs'', Arr [Str ''test/a.spec.js''] []),
         (''mutate'', Arr [Str ''src/a.js''] [])]"




text \<open>Options with no \<^verbatim>\<open>specs\<close>, after merge and expansion.\<close>

definition expandedWithoutSpecs :: jsobj where
  "expandedWithoutSpecs =
     DEFAULT_OPTIONS @
        [(''code'', Arr [Str ''src/a.js'', Str ''src/b.js''] []),
         (''mutate'', Arr [Str ''src/a.js''] []), (''specs'', Arr [] [])]"

section \<open>Properties of the value operations\<close>

lemma js_get_set: "js_get (js_set opts k v) k' = (if k' = k then v else js_get opts k')"
  by (simp add: js_get_def js_set_def update_conv')

lemma map_of_js_set: "map_of (js_set opts k v) = (map_of opts)(k \<mapsto> v)"
  by (simp add: js_set_def update_conv')


lemma ownKey_map_of: "ownKey opts k = (map_of opts k \<noteq> None)"
  by (simp add: ownKey_def map_of_eq_None_iff)

lemma js_get_map_of: "map_of opts k = map_of opts' k \<Longrightarrow> js_get opts k = js_get opts' k"
  by (simp add: js_get_def)

lemma js_set_fresh: "\<not> ownKey opts k \<Longrightarrow> js_set opts k v = opts @ [(k, v)]"
  by (induction opts) (auto simp: js_set_def ownKey_def)

lemma hasOwnProperty_builtin:
  "\<not> ownKey opts ''hasOwnProperty'' \<Longrightarrow> hasOwnProperty env opts k = Inr (Bool (ownKey opts k))"
  by (simp add: hasOwnProperty_def ownKey_map_of)

section \<open>Expansion of file lists\<close>

lemma baseUniq_firstSeen:
  "baseUniq seen xs = seen @ filter (\<lambda>y. y \<notin> set seen) (firstSeen xs)"
proof (induction xs arbitrary: seen)
  case Nil
  then show ?case by simp
next
  case (Cons x xs)
  show ?case
  proof (cases "x \<in> set seen")
    case True
    have "filter (\<lambda>y. y \<notin> set seen) (removeAll x (firstSeen xs)) =
          filter (\<lambda>y. y \<notin> set seen) (firstSeen xs)"
      using True by (auto simp: removeAll_filter_not_eq intro: filter_cong)
    with True Cons.IH [of seen] show ?thesis by simp
  next
    case False
    have "filter (\<lambda>y. y \<notin> set (seen @ [x])) (firstSeen xs) =
          filter (\<lambda>y. y \<notin> set seen) (removeAll x (firstSeen xs))"
      by (auto simp: removeAll_filter_not_eq intro: filter_cong)
    with False Cons.IH [of "seen @ [x]"] show ?thesis by simp
  qed
qed

lemma set_firstSeen: "set (firstSeen xs) = set xs"
  by (induction xs) auto

lemma distinct_firstSeen: "distinct (firstSeen xs)"
  by (induction xs) (auto simp: distinct_removeAll)

lemma firstSeen_append:
  "firstSeen (xs @ ys) = firstSeen xs @ filter (\<lambda>y. y \<notin> set xs) (firstSeen ys)"
proof (induction xs)
  case Nil
  then show ?case by simp
next
  case (Cons x xs)
  have "removeAll x (filter (\<lambda>y. y \<notin> set xs) (firstSeen ys)) =
        filter (\<lambda>y. y \<noteq> x \<and> y \<notin> set xs) (firstSeen ys)"
    by (auto simp: removeAll_filter_not_eq intro: filter_cong)
  with Cons show ?case by simp
qed

lemma firstSeen_distinct: "distinct xs \<Longrightarrow> firstSeen xs = xs"
  by (induction xs) auto

lemma lodash_union_firstSeen: "lodash_union a b = firstSeen (a @ b)"
  by (simp add: lodash_union_def baseUniq_firstSeen)

lemma expandLoop_firstSeen:
  "expandLoop env basePath ps (firstSeen acc) =
     (case allMatches env basePath ps of
        Inl e \<Rightarrow> Inl e
      | Inr ms \<Rightarrow> Inr (firstSeen (acc @ concat ms)))"
proof (induction ps arbitrary: acc)
  case Nil
  then show ?case by simp
next
  case (Cons p ps)
  have u: "lodash_union (firstSeen acc) found = firstSeen (acc @ found)" for found
    by (simp add: lodash_union_firstSeen firstSeen_append set_firstSeen
        firstSeen_distinct distinct_firstSeen)
  show ?case
    by (simp add: u Cons.IH patternMatches_def split: sum.splits)
qed

lemma expandFiles_allMatches:
  "expandFiles env files basePath =
     (case allMatches env basePath (fileList files) of
        Inl e \<Rightarrow> Inl e
      | Inr ms \<Rightarrow> Inr (firstSeen (concat ms)))"
  using expandLoop_firstSeen [of env basePath "fileList files" "[]"]
  by (simp add: expandFiles_def split: sum.splits)

lemma expandFiles_falsy: "\<not> js_truthy files \<Longrightarrow> expandFiles env files basePath = Inr []"
  by (simp add: expandFiles_def fileList_def)

lemma expandFiles_Undefined: "expandFiles env Undefined basePath = Inr []"
  by (simp add: expandFiles_falsy)

section \<open>The expansion phase\<close>

lemma expandField_Inr:
  "expandField env k opts = Inr opts' \<longleftrightarrow>
     (\<exists>ps. expandFiles env (js_get opts k) (js_get opts ''basePath'') = Inr ps \<and>
           opts' = js_set opts k (pathArray ps))"
  by (auto simp: expandField_def split: sum.splits)

lemma expandKarma_frame:
  "expandKarma env opts = Inr opts' \<Longrightarrow> k \<noteq> ''karma'' \<Longrightarrow> map_of opts' k = map_of opts k"
  by (auto simp: expandKarma_def map_of_js_set split: if_splits sum.splits)

lemma expandOptions_Inr:
  assumes "expandOptions env opts = Inr opts'"
  shows "\<exists>c s m.
      expandFiles env (js_get opts ''code'') (js_get opts ''basePath'') = Inr c \<and>
      expandFiles env (js_get opts ''specs'') (js_get opts ''basePath'') = Inr s \<and>
      expandFiles env (js_get opts ''mutate'') (js_get opts ''basePath'') = Inr m \<and>
      expandKarma env
        (js_set (js_set (js_set opts ''code'' (pathArray c)) ''specs'' (pathArray s))
           ''mutate'' (pathArray m)) = Inr opts'"
proof -
  from assms obtain o1 o2 o3 where
    1: "expandField env ''code'' opts = Inr o1" and
    2: "expandField env ''specs'' o1 = Inr o2" and
    3: "expandField env ''mutate'' o2 = Inr o3" and
    4: "expandKarma env o3 = Inr opts'"
    by (auto simp: expandOptions_def split: sum.splits)
  from 1 obtain c where c: "expandFiles env (js_get opts ''code'') (js_get opts ''basePath'') = Inr c"
    "o1 = js_set opts ''code'' (pathArray c)"
    by (auto simp: expandField_Inr)
  from 2 obtain s where s: "expandFiles env (js_get o1 ''specs'') (js_get o1 ''basePath'') = Inr s"
    "o2 = js_set o1 ''specs'' (pathArray s)"
    by (auto simp: expandField_Inr)
  from 3 obtain m where m: "expandFiles env (js_get o2 ''mutate'') (js_get o2 ''basePath'') = Inr m"
    "o3 = js_set o2 ''mutate'' (pathArray m)"
    by (auto simp: expandField_Inr)
  from c s have s': "expandFiles env (js_get opts ''specs'') (js_get opts ''basePath'') = Inr s"
    by (simp add: js_get_set)
  from c s m have m': "expandFiles env (js_get opts ''mutate'') (js_get opts ''basePath'') = Inr m"
    by (simp add: js_get_set)
  from c s' m' 4 c(2) s(2) m(2) show ?thesis by blast
qed

lemma expandOptions_fields:
  assumes "expandOptions env opts = Inr opts'"
  shows "\<exists>c s m.
      expandFiles env (js_get opts ''code'') (js_get opts ''basePath'') = Inr c \<and>
      expandFiles env (js_get opts ''specs'') (js_get opts ''basePath'') = Inr s \<and>
      expandFiles env (js_get opts ''mutate'') (js_get opts ''basePath'') = Inr m \<and>
      map_of opts' ''code'' = Some (pathArray c) \<and>
      map_of opts' ''specs'' = Some (pathArray s) \<and>
      map_of opts' ''mutate'' = Some (pathArray m)"
proof -
  from expandOptions_Inr [OF assms] obtain c s m where
    e: "expandFiles env (js_get opts ''code'') (js_get opts ''basePath'') = Inr c"
       "expandFiles env (js_get opts ''specs'') (js_get opts ''basePath'') = Inr s"
       "expandFiles env (js_get opts ''mutate'') (js_get opts ''basePath'') = Inr m" and
    k: "expandKarma env
        (js_set (js_set (js_set opts ''code'' (pathArray c)) ''specs'' (pathArray s))
           ''mutate'' (pathArray m)) = Inr opts'"
    by blast
  have "map_of opts' ''code'' = Some (pathArray c)"
    using expandKarma_frame [OF k, of "''code''"] by (simp add: map_of_js_set)
  moreover have "map_of opts' ''specs'' = Some (pathArray s)"
    using expandKarma_frame [OF k, of "''specs''"] by (simp add: map_of_js_set)
  moreover have "map_of opts' ''mutate'' = Some (pathArray m)"
    using expandKarma_frame [OF k, of "''mutate''"] by (simp add: map_of_js_set)
  ultimately show ?thesis using e by blast
qed

lemma expandOptions_frame:
  assumes "expandOptions env opts = Inr opts'"
    and "k \<notin> {''code'', ''specs'', ''mutate'', ''karma''}"
  shows "map_of opts' k = map_of opts k"
proof -
  from expandOptions_Inr [OF assms(1)] obtain c s m where
    k: "expandKarma env
        (js_set (js_set (js_set opts ''code'' (pathArray c)) ''specs'' (pathArray s))
           ''mutate'' (pathArray m)) = Inr opts'"
    by blast
  from assms(2) have "k \<noteq> ''karma''" by simp
  from expandKarma_frame [OF k this] assms(2) show ?thesis
    by (simp add: map_of_js_set)
qed

lemma expandOptions_shadow:
  assumes "expandOptions env opts = Inr opts'"
  shows "ownKey opts' ''hasOwnProperty'' = ownKey opts ''hasOwnProperty''"
  using expandOptions_frame [OF assms, of "''hasOwnProperty''"]
  by (simp add: ownKey_map_of)

section \<open>Validation\<close>

lemma js_length_pathArray: "js_length (pathArray ps) = Inr (Num (int (length ps)))"
  by (simp add: pathArray_def)

lemma areRequiredOptionsSet_firstFailure:
  assumes "\<not> ownKey opts ''hasOwnProperty''"
  shows "areRequiredOptionsSet env opts =
     map_sum id (map_option failureMessage) (firstFailure opts)"
  by (simp add: areRequiredOptionsSet_def hasOwnProperty_builtin [OF assms] firstFailure_def
      checksInOrder_def nonEmptyField_def split: sum.splits)

lemma firstFailure_expanded:
  assumes "map_of opts ''code'' = Some (pathArray c)"
    and "map_of opts ''specs'' = Some (pathArray s)"
    and "map_of opts ''mutate'' = Some (pathArray m)"
  shows "firstFailure opts =
     Inr (if c = [] then Some CodeNonEmpty
          else if s = [] then Some SpecsNonEmpty
          else if m = [] then Some MutateNonEmpty
          else None)"
  using assms
  by (simp add: firstFailure_def checksInOrder_def nonEmptyField_def ownKey_map_of js_get_def
      js_length_pathArray)

lemma ensureReportersConfig_builtin:
  "\<not> ownKey opts ''hasOwnProperty'' \<Longrightarrow>
   ensureReportersConfig env opts =
     Inr (if ownKey opts ''reporters'' then opts else js_set opts ''reporters'' DEFAULT_REPORTER)"
  by (simp add: ensureReportersConfig_def hasOwnProperty_builtin)

lemma ensureReportersConfig_frame:
  "ensureReportersConfig env opts = Inr opts' \<Longrightarrow> k \<noteq> ''reporters'' \<Longrightarrow>
   map_of opts' k = map_of opts k"
  by (auto simp: ensureReportersConfig_def map_of_js_set split: sum.splits if_splits)

section \<open>Resolution after a successful expansion\<close>

lemma getOptions_expanded:
  assumes "\<not> ownKey (mergedOptions g l) ''hasOwnProperty''"
    and "log4js_setup env (js_get (mergedOptions g l) ''logLevel'') = None"
    and "expandOptions env (mergedOptions g l) = Inr opts'"
  shows "\<exists>r. firstFailure opts' = Inr r \<and>
     r \<in> {None, Some CodeNonEmpty, Some SpecsNonEmpty, Some MutateNonEmpty} \<and>
     getOptions env g l h =
       (case r of
          Some c \<Rightarrow>
            (Inr Null,
             h\<lparr>log_level := Some (js_get (mergedOptions g l) ''logLevel''),
               warnings := warnings h @ [warningPrefix @ failureMessage c]\<rparr>)
        | None \<Rightarrow>
            (Inr (Obj (ensureIgnoreConfig
                  (if ownKey opts' ''reporters'' then opts'
                   else js_set opts' ''reporters'' DEFAULT_REPORTER))),
             h\<lparr>log_level := Some (js_get (mergedOptions g l) ''logLevel'')\<rparr>))"
proof -
  from expandOptions_fields [OF assms(3)] obtain c s m where
    f: "map_of opts' ''code'' = Some (pathArray c)"
       "map_of opts' ''specs'' = Some (pathArray s)"
       "map_of opts' ''mutate'' = Some (pathArray m)"
    by blast
  let ?r = "if c = [] then Some CodeNonEmpty
          else if s = [] then Some SpecsNonEmpty
          else if m = [] then Some MutateNonEmpty
          else None"
  have n: "\<not> ownKey opts' ''hasOwnProperty''"
    using assms(1) by (simp add: expandOptions_shadow [OF assms(3)])
  have a: "firstFailure opts' = Inr ?r"
    by (rule firstFailure_expanded [OF f])
  have v: "areRequiredOptionsSet env opts' = Inr (map_option failureMessage ?r)"
    by (simp add: areRequiredOptionsSet_firstFailure [OF n] a)
  have "?r \<in> {None, Some CodeNonEmpty, Some SpecsNonEmpty, Some MutateNonEmpty}"
    by simp
  moreover have "getOptions env g l h =
       (case ?r of
          Some c \<Rightarrow>
            (Inr Null,
             h\<lparr>log_level := Some (js_get (mergedOptions g l) ''logLevel''),
               warnings := warnings h @ [warningPrefix @ failureMessage c]\<rparr>)
        | None \<Rightarrow>
            (Inr (Obj (ensureIgnoreConfig
                  (if ownKey opts' ''reporters'' then opts'
                   else js_set opts' ''reporters'' DEFAULT_REPORTER))),
             h\<lparr>log_level := Some (js_get (mergedOptions g l) ''logLevel'')\<rparr>))"
    by (simp add: getOptions_def Let_def assms(2,3) v ensureReportersConfig_builtin [OF n])
  ultimately show ?thesis using a by blast
qed

lemma getOptions_Obj:
  assumes "fst (getOptions env g l h) = Inr (Obj r)"
  shows "\<exists>opts' opts''. expandOptions env (mergedOptions g l) = Inr opts' \<and>
           ensureReportersConfig env opts' = Inr opts'' \<and>
           r = ensureIgnoreConfig opts''"
  using assms
  by (auto simp: getOptions_def Let_def split: option.splits sum.splits)

section \<open>File expansion\<close>

text \<open>
  Claim C5. \<^verbatim>\<open>expandFiles\<close> returns the empty list when the patterns argument is absent
  (the code's test is falsiness: \<^verbatim>\<open>undefined\<close>, \<^verbatim>\<open>null\<close>, and also the empty string,
  zero and \<^verbatim>\<open>false\<close>). Otherwise the patterns are the elements of a list argument, or
  the single argument itself; they are processed in the order given, each joined with the
  base path and matched by the glob collaborator, and the result is the concatenation of
  the matches with every path kept where it is first seen: it has no duplicates, holds
  exactly the matched paths, and the paths of a later pattern that an earlier pattern
  already contributed are left out while the new ones keep their order. A collaborator's
  error at the first pattern that raises one is the result.
\<close>

theorem expandFiles_union:
  "(\<not> js_truthy files \<longrightarrow> expandFiles env files basePath = Inr []) \<and>
   (js_truthy files \<longrightarrow>
      expandFiles env files basePath =
        (case allMatches env basePath (case files of Arr ps x \<Rightarrow> ps | _ \<Rightarrow> [files]) of
           Inl e \<Rightarrow> Inl e
         | Inr ms \<Rightarrow> Inr (firstSeen (concat ms)))) \<and>
   distinct (firstSeen xs) \<and> set (firstSeen xs) = set xs \<and>
   firstSeen (xs @ ys) = firstSeen xs @ filter (\<lambda>y. y \<notin> set xs) (firstSeen (ys :: string list))"
  by (simp add: expandFiles_falsy expandFiles_allMatches fileList_def distinct_firstSeen
      set_firstSeen firstSeen_append)

section \<open>Validation of the required options\<close>

text \<open>
  Claim C1, as amended. For options with no own field named \<^verbatim>\<open>hasOwnProperty\<close>,
  \<^verbatim>\<open>areRequiredOptionsSet\<close> does what evaluating the six checks one after the other
  in the fixed order does (own \<^verbatim>\<open>code\<close>, \<^verbatim>\<open>specs\<close>, \<^verbatim>\<open>mutate\<close>, then non-empty
  \<^verbatim>\<open>code\<close>, \<^verbatim>\<open>specs\<close>, \<^verbatim>\<open>mutate\<close>), stopping at the first one that fails: it returns
  the message of that check, no message when all pass, and throws only where a check
  reached in this order throws. In a resolution of such options that reaches validation
  (logging set up, expansion done) no check throws; a failing check makes
  \<^verbatim>\<open>getOptions\<close> append exactly one warning, the fixed prefix followed by the message of
  the first failing check, and return \<^verbatim>\<open>null\<close> without throwing; when all checks pass
  no warning is added and an options object is returned.
\<close>

theorem required_checks_in_order:
  "(\<not> ownKey opts ''hasOwnProperty'' \<longrightarrow>
      areRequiredOptionsSet env opts =
        map_sum id (map_option failureMessage) (firstOutcome opts checksInOrder)) \<and>
   (\<not> ownKey (mergedOptions g l) ''hasOwnProperty'' \<and>
    log4js_setup env (js_get (mergedOptions g l) ''logLevel'') = None \<and>
    expandOptions env (mergedOptions g l) = Inr opts' \<longrightarrow>
      (\<exists>r. firstOutcome opts' checksInOrder = Inr r \<and>
        getOptions env g l h =
          (case r of
             Some c \<Rightarrow>
               (Inr Null,
                h\<lparr>log_level := Some (js_get (mergedOptions g l) ''logLevel''),
                  warnings := warnings h @ [warningPrefix @ failureMessage c]\<rparr>)
           | None \<Rightarrow>
               (Inr (Obj (ensureIgnoreConfig
                     (if ownKey opts' ''reporters'' then opts'
                      else js_set opts' ''reporters'' DEFAULT_REPORTER))),
                h\<lparr>log_level := Some (js_get (mergedOptions g l) ''logLevel'')\<rparr>))))"
proof (intro conjI impI)
  assume "\<not> ownKey opts ''hasOwnProperty''"
  from areRequiredOptionsSet_firstFailure [OF this]
  show "areRequiredOptionsSet env opts =
        map_sum id (map_option failureMessage) (firstOutcome opts checksInOrder)"
    by (simp add: firstFailure_def)
next
  assume a: "\<not> ownKey (mergedOptions g l) ''hasOwnProperty'' \<and>
    log4js_setup env (js_get (mergedOptions g l) ''logLevel'') = None \<and>
    expandOptions env (mergedOptions g l) = Inr opts'"
  then have a1: "\<not> ownKey (mergedOptions g l) ''hasOwnProperty''"
    and a2: "log4js_setup env (js_get (mergedOptions g l) ''logLevel'') = None"
    and a3: "expandOptions env (mergedOptions g l) = Inr opts'"
    by simp_all
  from getOptions_expanded [OF a1 a2 a3, of h]
  show "\<exists>r. firstOutcome opts' checksInOrder = Inr r \<and>
        getOptions env g l h =
          (case r of
             Some c \<Rightarrow>
               (Inr Null,
                h\<lparr>log_level := Some (js_get (mergedOptions g l) ''logLevel''),
                  warnings := warnings h @ [warningPrefix @ failureMessage c]\<rparr>)
           | None \<Rightarrow>
               (Inr (Obj (ensureIgnoreConfig
                     (if ownKey opts' ''reporters'' then opts'
                      else js_set opts' ''reporters'' DEFAULT_REPORTER))),
                h\<lparr>log_level := Some (js_get (mergedOptions g l) ''logLevel'')\<rparr>))"
    unfolding firstFailure_def by blast
qed

section \<open>The derived defaults\<close>

lemma map_of_ensureIgnoreConfig_other:
  "k \<noteq> ''ignore'' \<Longrightarrow> map_of (ensureIgnoreConfig opts) k = map_of opts k"
  by (simp add: ensureIgnoreConfig_def map_of_js_set)

lemma map_of_ensureIgnoreConfig:
  "map_of (ensureIgnoreConfig opts) ''ignore'' =
     (if js_truthy (js_get opts ''discardDefaultIgnore'') then map_of opts ''ignore''
      else if js_truthy (js_get opts ''ignore'')
        then Some (Arr (DEFAULT_IGNORE #
                (case js_get opts ''ignore'' of Arr ps x \<Rightarrow> ps | _ \<Rightarrow> [js_get opts ''ignore''])) [])
        else Some DEFAULT_IGNORE)"
  by (simp add: ensureIgnoreConfig_def map_of_js_set js_concat_def split: jsval.splits)

lemma resolved_ignore:
  assumes "fst (getOptions env g l h) = Inr (Obj r)"
  shows "map_of r ''ignore'' =
     (if js_truthy (js_get (mergedOptions g l) ''discardDefaultIgnore'')
      then map_of (mergedOptions g l) ''ignore''
      else if js_truthy (js_get (mergedOptions g l) ''ignore'')
        then Some (Arr (DEFAULT_IGNORE #
                (case js_get (mergedOptions g l) ''ignore'' of
                   Arr ps x \<Rightarrow> ps
                 | _ \<Rightarrow> [js_get (mergedOptions g l) ''ignore''])) [])
        else Some DEFAULT_IGNORE)"
proof -
  from getOptions_Obj [OF assms] obtain opts' opts'' where
    e: "expandOptions env (mergedOptions g l) = Inr opts'" and
    p: "ensureReportersConfig env opts' = Inr opts''" and
    r: "r = ensureIgnoreConfig opts''"
    by blast
  have i: "map_of opts'' ''ignore'' = map_of (mergedOptions g l) ''ignore''"
    using expandOptions_frame [OF e, of "''ignore''"]
      ensureReportersConfig_frame [OF p, of "''ignore''"] by simp
  have d: "map_of opts'' ''discardDefaultIgnore'' =
           map_of (mergedOptions g l) ''discardDefaultIgnore''"
    using expandOptions_frame [OF e, of "''discardDefaultIgnore''"]
      ensureReportersConfig_frame [OF p, of "''discardDefaultIgnore''"] by simp
  show ?thesis
    unfolding r map_of_ensureIgnoreConfig js_get_map_of [OF i] js_get_map_of [OF d] i ..
qed

lemma resolved_reporters:
  assumes "fst (getOptions env g l h) = Inr (Obj r)"
    and "\<not> ownKey (mergedOptions g l) ''hasOwnProperty''"
  shows "map_of r ''reporters'' =
     (if ownKey (mergedOptions g l) ''reporters''
      then map_of (mergedOptions g l) ''reporters'' else Some DEFAULT_REPORTER)"
proof -
  from getOptions_Obj [OF assms(1)] obtain opts' opts'' where
    e: "expandOptions env (mergedOptions g l) = Inr opts'" and
    p: "ensureReportersConfig env opts' = Inr opts''" and
    r: "r = ensureIgnoreConfig opts''"
    by blast
  have n: "\<not> ownKey opts' ''hasOwnProperty''"
    using assms(2) by (simp add: expandOptions_shadow [OF e])
  have m: "map_of opts' ''reporters'' = map_of (mergedOptions g l) ''reporters''"
    using expandOptions_frame [OF e, of "''reporters''"] by simp
  then have o: "ownKey opts' ''reporters'' = ownKey (mergedOptions g l) ''reporters''"
    by (simp add: ownKey_map_of)
  from p have "opts'' =
      (if ownKey opts' ''reporters'' then opts' else js_set opts' ''reporters'' DEFAULT_REPORTER)"
    by (simp add: ensureReportersConfig_builtin [OF n])
  with m o show ?thesis
    by (simp add: r map_of_ensureIgnoreConfig_other map_of_js_set)
qed

text \<open>
  Claim C4, as amended. When \<^verbatim>\<open>getOptions\<close> returns options and the merged object has
  no own field named \<^verbatim>\<open>hasOwnProperty\<close>, the \<^verbatim>\<open>reporters\<close> field of the result is the
  default \<^verbatim>\<open>{console: true}\<close> if the merged object has no own \<^verbatim>\<open>reporters\<close> key, and
  otherwise it is exactly the merged value, whatever that value is (an empty mapping
  included): the default is not merged into it.
\<close>

theorem reporters_default_iff_absent:
  "fst (getOptions env g l h) = Inr (Obj r) \<Longrightarrow>
   \<not> ownKey (mergedOptions g l) ''hasOwnProperty'' \<Longrightarrow>
     (\<not> ownKey (mergedOptions g l) ''reporters'' \<longrightarrow>
        map_of r ''reporters'' = Some DEFAULT_REPORTER) \<and>
     (ownKey (mergedOptions g l) ''reporters'' \<longrightarrow>
        map_of r ''reporters'' = map_of (mergedOptions g l) ''reporters'' \<and>
        map_of r ''reporters'' = layerValue (Some (mergedOptions g l)) ''reporters'')"
  by (simp add: resolved_reporters layerValue_def)

text \<open>
  Claim C3, as amended. When \<^verbatim>\<open>getOptions\<close> returns options: if the merged
  \<^verbatim>\<open>discardDefaultIgnore\<close> is truthy, \<^verbatim>\<open>ignore\<close> is as the merged object had it (absent
  when it was absent); otherwise, if the merged \<^verbatim>\<open>ignore\<close> is truthy, the resolved
  \<^verbatim>\<open>ignore\<close> is the list of the built-in pattern followed by the supplied pattern(s) (a
  single pattern gives a list of two), and if the merged object has no \<^verbatim>\<open>ignore\<close> the
  resolved \<^verbatim>\<open>ignore\<close> is the bare built-in pattern.
\<close>

theorem ignore_injection:
  "fst (getOptions env g l h) = Inr (Obj r) \<Longrightarrow>
     (js_truthy (js_get (mergedOptions g l) ''discardDefaultIgnore'') \<longrightarrow>
        map_of r ''ignore'' = map_of (mergedOptions g l) ''ignore'') \<and>
     (\<not> js_truthy (js_get (mergedOptions g l) ''discardDefaultIgnore'') \<and>
      js_truthy (js_get (mergedOptions g l) ''ignore'') \<longrightarrow>
        map_of r ''ignore'' =
          Some (Arr (DEFAULT_IGNORE #
            (case js_get (mergedOptions g l) ''ignore'' of
               Arr ps x \<Rightarrow> ps
             | _ \<Rightarrow> [js_get (mergedOptions g l) ''ignore''])) [])) \<and>
     (\<not> js_truthy (js_get (mergedOptions g l) ''discardDefaultIgnore'') \<and>
      \<not> ownKey (mergedOptions g l) ''ignore'' \<longrightarrow>
        map_of r ''ignore'' = Some DEFAULT_IGNORE)"
  by (simp add: resolved_ignore ownKey_map_of js_get_def)

text \<open>
  Claim C9. When \<^verbatim>\<open>getOptions\<close> returns options and the merged object has an own
  \<^verbatim>\<open>ignore\<close> whose value is falsy, with a falsy \<^verbatim>\<open>discardDefaultIgnore\<close>, the resolved
  \<^verbatim>\<open>ignore\<close> is the bare built-in pattern: the supplied value is dropped, not prepended to.
\<close>

theorem falsy_ignore_discarded:
  "fst (getOptions env g l h) = Inr (Obj r) \<Longrightarrow>
   ownKey (mergedOptions g l) ''ignore'' \<Longrightarrow>
   \<not> js_truthy (js_get (mergedOptions g l) ''ignore'') \<Longrightarrow>
   \<not> js_truthy (js_get (mergedOptions g l) ''discardDefaultIgnore'') \<Longrightarrow>
   map_of r ''ignore'' = Some DEFAULT_IGNORE"
  by (simp add: resolved_ignore)

text \<open>
  Claim C6, as amended. Options that went through the expansion phase have own
  \<^verbatim>\<open>code\<close>, \<^verbatim>\<open>specs\<close> and \<^verbatim>\<open>mutate\<close> fields, so no check throws and the first failing
  check, if any, is one of the three emptiness checks. When the merged options have no
  own field named \<^verbatim>\<open>hasOwnProperty\<close>, \<^verbatim>\<open>getOptions\<close> either adds no warning and does not
  return \<^verbatim>\<open>null\<close>, or returns \<^verbatim>\<open>null\<close> and adds exactly one warning, which carries one
  of the three emptiness messages.
\<close>

theorem missing_field_unreachable:
  "(expandOptions env opts = Inr opts' \<longrightarrow>
      ownKey opts' ''code'' \<and> ownKey opts' ''specs'' \<and> ownKey opts' ''mutate'' \<and>
      firstOutcome opts' checksInOrder \<in>
        {Inr None, Inr (Some CodeNonEmpty), Inr (Some SpecsNonEmpty), Inr (Some MutateNonEmpty)}) \<and>
   (\<not> ownKey (mergedOptions g l) ''hasOwnProperty'' \<longrightarrow>
    (fst (getOptions env g l h) \<noteq> Inr Null \<and>
     warnings (snd (getOptions env g l h)) = warnings h) \<or>
    (fst (getOptions env g l h) = Inr Null \<and>
     (\<exists>c \<in> {CodeNonEmpty, SpecsNonEmpty, MutateNonEmpty}.
        warnings (snd (getOptions env g l h)) =
          warnings h @ [warningPrefix @ failureMessage c])))"
proof (intro conjI impI)
  assume e: "expandOptions env opts = Inr opts'"
  from expandOptions_fields [OF e] obtain c s m where
    f: "map_of opts' ''code'' = Some (pathArray c)"
       "map_of opts' ''specs'' = Some (pathArray s)"
       "map_of opts' ''mutate'' = Some (pathArray m)"
    by blast
  from f show "ownKey opts' ''code''" "ownKey opts' ''specs''" "ownKey opts' ''mutate''"
    by (simp_all add: ownKey_map_of)
  from firstFailure_expanded [OF f] show "firstOutcome opts' checksInOrder \<in>
      {Inr None, Inr (Some CodeNonEmpty), Inr (Some SpecsNonEmpty), Inr (Some MutateNonEmpty)}"
    by (simp add: firstFailure_def)
next
  assume n: "\<not> ownKey (mergedOptions g l) ''hasOwnProperty''"
  show "(fst (getOptions env g l h) \<noteq> Inr Null \<and>
     warnings (snd (getOptions env g l h)) = warnings h) \<or>
    (fst (getOptions env g l h) = Inr Null \<and>
     (\<exists>c \<in> {CodeNonEmpty, SpecsNonEmpty, MutateNonEmpty}.
        warnings (snd (getOptions env g l h)) =
          warnings h @ [warningPrefix @ failureMessage c]))"
  proof (cases "log4js_setup env (js_get (mergedOptions g l) ''logLevel'')")
    case (Some e)
    then show ?thesis by (simp add: getOptions_def Let_def)
  next
    case None
    show ?thesis
    proof (cases "expandOptions env (mergedOptions g l)")
      case (Inl e)
      with None show ?thesis by (simp add: getOptions_def Let_def)
    next
      case (Inr opts')
      from getOptions_expanded [OF n None Inr, of h] obtain r where
        r: "r \<in> {None, Some CodeNonEmpty, Some SpecsNonEmpty, Some MutateNonEmpty}" and
        g: "getOptions env g l h =
         (case r of
            Some c \<Rightarrow>
              (Inr Null,
               h\<lparr>log_level := Some (js_get (mergedOptions g l) ''logLevel''),
                 warnings := warnings h @ [warningPrefix @ failureMessage c]\<rparr>)
          | None \<Rightarrow>
              (Inr (Obj (ensureIgnoreConfig
                    (if ownKey opts' ''reporters'' then opts'
                     else js_set opts' ''reporters'' DEFAULT_REPORTER))),
               h\<lparr>log_level := Some (js_get (mergedOptions g l) ''logLevel'')\<rparr>))"
        by blast
      from r consider "r = None" | "r = Some CodeNonEmpty"
        | "r = Some SpecsNonEmpty" | "r = Some MutateNonEmpty"
        by auto
      then show ?thesis
      proof cases
        case 1
        with g show ?thesis by simp
      next
        case 2
        with g show ?thesis by simp
      next
        case 3
        with g show ?thesis by simp
      next
        case 4
        with g show ?thesis by simp
      qed
    qed
  qed
qed

section \<open>The karma step\<close>

lemma expandKarma_object:
  assumes "ownProps (js_get opts ''karma'') = Some ps"
  shows "expandKarma env opts =
     (case expandFiles env (js_get ps ''notIncluded'') (js_get opts ''basePath'') of
        Inl e \<Rightarrow> Inl e
      | Inr fs \<Rightarrow>
          Inr (js_set opts ''karma''
                (withProps (js_get opts ''karma'') (js_set ps ''notIncluded'' (pathArray fs)))))"
proof -
  from assms have t: "js_truthy (js_get opts ''karma'')"
    by (cases "js_get opts ''karma''") simp_all
  from assms have m: "js_member (js_get opts ''karma'') ''notIncluded'' =
      Inr (js_get ps ''notIncluded'')"
    by (cases "js_get opts ''karma''") simp_all
  show ?thesis
    by (simp add: expandKarma_def t m js_set_member_def assms split: sum.splits)
qed

lemma expandKarma_falsy:
  "\<not> js_truthy (js_get opts ''karma'') \<Longrightarrow> expandKarma env opts = Inr opts"
  by (simp add: expandKarma_def)

lemma expandOptions_karma_object:
  assumes "expandOptions env opts = Inr opts'" and "ownProps (js_get opts ''karma'') = Some ps"
  shows "\<exists>fs. expandFiles env (js_get ps ''notIncluded'') (js_get opts ''basePath'') = Inr fs \<and>
     map_of opts' ''karma'' =
       Some (withProps (js_get opts ''karma'') (js_set ps ''notIncluded'' (pathArray fs)))"
proof -
  from expandOptions_Inr [OF assms(1)] obtain c s m where
    k: "expandKarma env
        (js_set (js_set (js_set opts ''code'' (pathArray c)) ''specs'' (pathArray s))
           ''mutate'' (pathArray m)) = Inr opts'"
    by blast
  let ?o3 = "js_set (js_set (js_set opts ''code'' (pathArray c)) ''specs'' (pathArray s))
           ''mutate'' (pathArray m)"
  have g: "js_get ?o3 ''karma'' = js_get opts ''karma''"
    "js_get ?o3 ''basePath'' = js_get opts ''basePath''"
    by (simp_all add: js_get_set)
  from assms(2) have p: "ownProps (js_get ?o3 ''karma'') = Some ps"
    by (simp add: g)
  from k show ?thesis
    unfolding expandKarma_object [OF p] g
    by (auto simp: map_of_js_set split: sum.splits)
qed

lemma expandOptions_karma_falsy:
  assumes "expandOptions env opts = Inr opts'" and "\<not> js_truthy (js_get opts ''karma'')"
  shows "map_of opts' ''karma'' = map_of opts ''karma''"
proof -
  from expandOptions_Inr [OF assms(1)] obtain c s m where
    k: "expandKarma env
        (js_set (js_set (js_set opts ''code'' (pathArray c)) ''specs'' (pathArray s))
           ''mutate'' (pathArray m)) = Inr opts'"
    by blast
  let ?o3 = "js_set (js_set (js_set opts ''code'' (pathArray c)) ''specs'' (pathArray s))
           ''mutate'' (pathArray m)"
  have "js_get ?o3 ''karma'' = js_get opts ''karma''"
    by (simp add: js_get_set)
  with assms(2) have "expandKarma env ?o3 = Inr ?o3"
    by (simp add: expandKarma_falsy)
  with k have "opts' = ?o3" by simp
  then show ?thesis by (simp add: map_of_js_set)
qed

lemma resolved_karma:
  assumes "fst (getOptions env g l h) = Inr (Obj r)"
  shows "\<exists>opts'. expandOptions env (mergedOptions g l) = Inr opts' \<and>
           map_of r ''karma'' = map_of opts' ''karma'' \<and>
           map_of r ''code'' = map_of opts' ''code''"
proof -
  from getOptions_Obj [OF assms] obtain opts' opts'' where
    e: "expandOptions env (mergedOptions g l) = Inr opts'" and
    p: "ensureReportersConfig env opts' = Inr opts''" and
    r: "r = ensureIgnoreConfig opts''"
    by blast
  have "map_of r ''karma'' = map_of opts' ''karma''" "map_of r ''code'' = map_of opts' ''code''"
    using ensureReportersConfig_frame [OF p, of "''karma''"]
      ensureReportersConfig_frame [OF p, of "''code''"]
    by (simp_all add: r map_of_ensureIgnoreConfig_other)
  with e show ?thesis by blast
qed

text \<open>
  Claim C7. When the merged \<^verbatim>\<open>karma\<close> is an object with a \<^verbatim>\<open>notIncluded\<close> key, the
  expansion phase replaces \<^verbatim>\<open>karma.notIncluded\<close> by the list that \<^verbatim>\<open>expandFiles\<close> gives
  for it with the merged \<^verbatim>\<open>basePath\<close>, the function and base path used for \<^verbatim>\<open>code\<close>;
  the options \<^verbatim>\<open>getOptions\<close> returns carry that \<^verbatim>\<open>karma\<close>.
\<close>

theorem karma_notIncluded_expanded:
  "js_get opts ''karma'' = Obj kvs \<Longrightarrow> ownKey kvs ''notIncluded'' \<Longrightarrow>
   (expandOptions env opts = Inr opts' \<longrightarrow>
      (\<exists>ps. expandFiles env (js_get kvs ''notIncluded'') (js_get opts ''basePath'') = Inr ps \<and>
            map_of opts' ''karma'' = Some (Obj (js_set kvs ''notIncluded'' (pathArray ps))))) \<and>
   (opts = mergedOptions g l \<and> fst (getOptions env g l h) = Inr (Obj r) \<longrightarrow>
      (\<exists>ps c. expandFiles env (js_get kvs ''notIncluded'') (js_get opts ''basePath'') = Inr ps \<and>
            map_of r ''karma'' = Some (Obj (js_set kvs ''notIncluded'' (pathArray ps))) \<and>
            expandFiles env (js_get opts ''code'') (js_get opts ''basePath'') = Inr c \<and>
            map_of r ''code'' = Some (pathArray c)))"
proof (intro conjI impI)
  assume k: "js_get opts ''karma'' = Obj kvs"
  then have p: "ownProps (js_get opts ''karma'') = Some kvs" by simp
  {
    assume "expandOptions env opts = Inr opts'"
    from expandOptions_karma_object [OF this p]
    show "\<exists>ps. expandFiles env (js_get kvs ''notIncluded'') (js_get opts ''basePath'') = Inr ps \<and>
            map_of opts' ''karma'' = Some (Obj (js_set kvs ''notIncluded'' (pathArray ps)))"
      by (simp add: k)
  next
    assume a: "opts = mergedOptions g l \<and> fst (getOptions env g l h) = Inr (Obj r)"
    then have o: "opts = mergedOptions g l" and f: "fst (getOptions env g l h) = Inr (Obj r)"
      by simp_all
    from resolved_karma [OF f] obtain o' where
      e: "expandOptions env opts = Inr o'" and
      m: "map_of r ''karma'' = map_of o' ''karma''" "map_of r ''code'' = map_of o' ''code''"
      unfolding o by blast
    from expandOptions_karma_object [OF e p] obtain ps where
      ps: "expandFiles env (js_get kvs ''notIncluded'') (js_get opts ''basePath'') = Inr ps"
        "map_of o' ''karma'' = Some (Obj (js_set kvs ''notIncluded'' (pathArray ps)))"
      by (auto simp: k)
    from expandOptions_fields [OF e] obtain c where
      c: "expandFiles env (js_get opts ''code'') (js_get opts ''basePath'') = Inr c"
        "map_of o' ''code'' = Some (pathArray c)"
      by blast
    from ps c m
    show "\<exists>ps c. expandFiles env (js_get kvs ''notIncluded'') (js_get opts ''basePath'') = Inr ps \<and>
            map_of r ''karma'' = Some (Obj (js_set kvs ''notIncluded'' (pathArray ps))) \<and>
            expandFiles env (js_get opts ''code'') (js_get opts ''basePath'') = Inr c \<and>
            map_of r ''code'' = Some (pathArray c)"
      by auto
  }
qed

text \<open>
  Claim C10, as amended. When the merged \<^verbatim>\<open>karma\<close> is an object (a plain object, an
  array, a function or a regular expression) without an own \<^verbatim>\<open>notIncluded\<close> property,
  the karma step cannot fail and adds \<^verbatim>\<open>notIncluded\<close> as the empty list, after the
  properties the object had. When the merged \<^verbatim>\<open>karma\<close> is absent or falsy, the karma
  step changes nothing: the field is as it was, absent when it was absent.
\<close>

theorem karma_without_notIncluded:
  "(ownProps (js_get opts ''karma'') = Some ps \<and> \<not> ownKey ps ''notIncluded'' \<longrightarrow>
      expandKarma env opts =
        Inr (js_set opts ''karma''
              (withProps (js_get opts ''karma'') (ps @ [(''notIncluded'', Arr [] [])]))) \<and>
      (expandOptions env opts = Inr opts' \<longrightarrow>
         map_of opts' ''karma'' =
           Some (withProps (js_get opts ''karma'') (ps @ [(''notIncluded'', Arr [] [])]))) \<and>
      (opts = mergedOptions g l \<and> fst (getOptions env g l h) = Inr (Obj r) \<longrightarrow>
         map_of r ''karma'' =
           Some (withProps (js_get opts ''karma'') (ps @ [(''notIncluded'', Arr [] [])])))) \<and>
   (\<not> js_truthy (js_get opts ''karma'') \<longrightarrow>
      expandKarma env opts = Inr opts \<and>
      (expandOptions env opts = Inr opts' \<longrightarrow> map_of opts' ''karma'' = map_of opts ''karma'') \<and>
      (opts = mergedOptions g l \<and> fst (getOptions env g l h) = Inr (Obj r) \<longrightarrow>
         map_of r ''karma'' = map_of opts ''karma''))"
proof (intro conjI impI)
  assume a: "ownProps (js_get opts ''karma'') = Some ps \<and> \<not> ownKey ps ''notIncluded''"
  then have k: "ownProps (js_get opts ''karma'') = Some ps" and n: "\<not> ownKey ps ''notIncluded''"
    by simp_all
  from n have u: "js_get ps ''notIncluded'' = Undefined"
    by (simp add: ownKey_map_of js_get_def)
  have s: "js_set ps ''notIncluded'' v = ps @ [(''notIncluded'', v)]" for v
    by (rule js_set_fresh [OF n])
  show "expandKarma env opts =
        Inr (js_set opts ''karma''
              (withProps (js_get opts ''karma'') (ps @ [(''notIncluded'', Arr [] [])])))"
    by (simp add: expandKarma_object [OF k] u expandFiles_Undefined s pathArray_def)
  {
    assume "expandOptions env opts = Inr opts'"
    from expandOptions_karma_object [OF this k]
    show "map_of opts' ''karma'' =
           Some (withProps (js_get opts ''karma'') (ps @ [(''notIncluded'', Arr [] [])]))"
      by (auto simp: u expandFiles_Undefined s pathArray_def)
  next
    assume "opts = mergedOptions g l \<and> fst (getOptions env g l h) = Inr (Obj r)"
    then have o: "opts = mergedOptions g l" and f: "fst (getOptions env g l h) = Inr (Obj r)"
      by simp_all
    from resolved_karma [OF f] obtain o' where
      e: "expandOptions env opts = Inr o'" and m: "map_of r ''karma'' = map_of o' ''karma''"
      unfolding o by blast
    from expandOptions_karma_object [OF e k] m
    show "map_of r ''karma'' =
           Some (withProps (js_get opts ''karma'') (ps @ [(''notIncluded'', Arr [] [])]))"
      by (auto simp: u expandFiles_Undefined s pathArray_def)
  }
next
  assume f: "\<not> js_truthy (js_get opts ''karma'')"
  show "expandKarma env opts = Inr opts"
    by (rule expandKarma_falsy [OF f])
  {
    assume "expandOptions env opts = Inr opts'"
    from expandOptions_karma_falsy [OF this f]
    show "map_of opts' ''karma'' = map_of opts ''karma''" .
  next
    assume "opts = mergedOptions g l \<and> fst (getOptions env g l h) = Inr (Obj r)"
    then have o: "opts = mergedOptions g l" and r: "fst (getOptions env g l h) = Inr (Obj r)"
      by simp_all
    from resolved_karma [OF r] obtain o' where
      e: "expandOptions env opts = Inr o'" and m: "map_of r ''karma'' = map_of o' ''karma''"
      unfolding o by blast
    from expandOptions_karma_falsy [OF e f] m
    show "map_of r ''karma'' = map_of opts ''karma''" by simp
  }
qed

section \<open>The merge\<close>




















section \<open>Resolving twice\<close>





























section \<open>Instances on the concrete host\<close>

lemma fsJoin_samples:
  "fsJoin (Str ''.'') (Str ''src/*.js'') = Inr ''src/*.js''"
  "fsJoin (Str ''.'') (Str ''src/a.js'') = Inr ''src/a.js''"
  "fsJoin (Str ''.'') (Str ''src/b.js'') = Inr ''src/b.js''"
  "fsJoin (Str ''.'') (Str ''test/*.js'') = Inr ''test/*.js''"
  by code_simp+

lemmas model_defs =
  getOptions_def mergedOptions_def DEFAULT_OPTIONS_def CALL_DONE_def DEFAULT_REPORTER_def
  DEFAULT_IGNORE_def expandOptions_def expandField_def expandKarma_def expandFiles_def
  fileList_def lodash_union_def pathArray_def areRequiredOptionsSet_def hasOwnProperty_def
  ensureReportersConfig_def ensureIgnoreConfig_def js_concat_def js_get_def js_set_def
  js_set_member_def ownKey_def warningPrefix_def fsEnv_def fsJoin_samples fsGlob_def
  sampleCall_def host0_def sampleOpts_def resolvedField_def arrayTarget_def arrayLikeLength_def
  objectTarget_def js_read_def objectPrototype_def expandedSample_def expandedWithoutSpecs_def

lemma merged_without_specs:
  "mergedOptions (Some [(''code'', Str ''src/*.js''), (''mutate'', Str ''src/a.js'')]) None =
     DEFAULT_OPTIONS @ [(''code'', Str ''src/*.js''), (''mutate'', Str ''src/a.js'')]"
  by (simp add: mergedOptions_def DEFAULT_OPTIONS_def CALL_DONE_def js_set_def js_get_def)

lemma expand_without_specs:
  "expandOptions fsEnv
     (DEFAULT_OPTIONS @ [(''code'', Str ''src/*.js''), (''mutate'', Str ''src/a.js'')]) =
   Inr expandedWithoutSpecs"
  by (simp add: model_defs)

lemma run_without_specs:
  "getOptions fsEnv (Some [(''code'', Str ''src/*.js''), (''mutate'', Str ''src/a.js'')])
     None host0 =
     (Inr Null,
      \<lparr>log_level = Some (Str ''INFO''),
       warnings = [''Not all required options have been set properly. Specs property is empty'']\<rparr>)"
  by (simp add: model_defs)

lemma firstOutcome_without_specs:
  "firstOutcome expandedWithoutSpecs checksInOrder = Inr (Some SpecsNonEmpty)"
  by (simp add: checksInOrder_def nonEmptyField_def ownKey_def DEFAULT_OPTIONS_def js_get_def
      expandedWithoutSpecs_def)

lemma merged_sample: "mergedOptions (Some sampleOpts) None = DEFAULT_OPTIONS @ sampleOpts"
  by (simp add: mergedOptions_def DEFAULT_OPTIONS_def CALL_DONE_def js_set_def js_get_def
      sampleOpts_def)

lemma run_sample:
  "getOptions fsEnv (Some sampleOpts) None host0 =
     (Inr (Obj (expandedSample @ [(''reporters'', DEFAULT_REPORTER), (''ignore'', DEFAULT_IGNORE)])),
      \<lparr>log_level = Some (Str ''INFO''), warnings = []\<rparr>)"
  by (simp add: model_defs)

theorem expandFiles_union_witness:
  "js_truthy (Arr [Str ''src/*.js'', Str ''src/a.js''] []) \<and>
   expandFiles fsEnv (Arr [Str ''src/*.js'', Str ''src/a.js''] []) (Str ''.'') =
     Inr [''src/a.js'', ''src/b.js''] \<and>
   expandFiles fsEnv Undefined (Str ''.'') = Inr []"
  using expandFiles_union [where files = "Arr [Str ''src/*.js'', Str ''src/a.js''] []"
      and env = fsEnv and basePath = "Str ''.''" and xs = "[]" and ys = "[]"]
    expandFiles_union [where files = Undefined and env = fsEnv and basePath = "Str ''.''"
      and xs = "[]" and ys = "[]"]
  by (simp add: patternMatches_def fsEnv_def fsJoin_samples fsGlob_def)

theorem required_checks_in_order_witness:
  "areRequiredOptionsSet fsEnv [(''code'', Null), (''mutate'', Arr [] [])] =
     Inr (Some ''Options has no own specs property'') \<and>
   areRequiredOptionsSet fsEnv [(''code'', Null), (''specs'', Arr [] []), (''mutate'', Arr [] [])] =
     Inl TypeError \<and>
   getOptions fsEnv (Some [(''code'', Str ''src/*.js''), (''mutate'', Str ''src/a.js'')]) None host0 =
     (Inr Null,
      \<lparr>log_level = Some (Str ''INFO''),
       warnings = [''Not all required options have been set properly. Specs property is empty'']\<rparr>)"
proof -
  let ?o1 = "[(''code'', Null), (''mutate'', Arr [] [])]"
  let ?o2 = "[(''code'', Null), (''specs'', Arr [] []), (''mutate'', Arr [] [])]"
  let ?g = "Some [(''code'', Str ''src/*.js''), (''mutate'', Str ''src/a.js'')]"
  have n: "\<not> ownKey ?o1 ''hasOwnProperty''" "\<not> ownKey ?o2 ''hasOwnProperty''"
    "\<not> ownKey (mergedOptions ?g None) ''hasOwnProperty''"
    by (simp_all add: ownKey_def merged_without_specs DEFAULT_OPTIONS_def)
  have f: "firstOutcome ?o1 checksInOrder = Inr (Some SpecsPresent)"
    "firstOutcome ?o2 checksInOrder = Inl TypeError"
    by (simp_all add: checksInOrder_def nonEmptyField_def ownKey_def js_get_def)
  have lg: "log4js_setup fsEnv (js_get (mergedOptions ?g None) ''logLevel'') = None"
    by (simp add: fsEnv_def)
  have ex: "expandOptions fsEnv (mergedOptions ?g None) = Inr expandedWithoutSpecs"
    by (simp only: merged_without_specs expand_without_specs)
  have lv: "js_get (mergedOptions ?g None) ''logLevel'' = Str ''INFO''"
    by (simp add: merged_without_specs DEFAULT_OPTIONS_def js_get_def)
  from required_checks_in_order [of ?o1 fsEnv ?g None expandedWithoutSpecs host0]
    required_checks_in_order [of ?o2 fsEnv ?g None expandedWithoutSpecs host0]
    n f lg ex lv firstOutcome_without_specs
  show ?thesis
    by (simp add: host0_def warningPrefix_def)
qed

text \<open>
  Claim C1 as stated fails when a layer sets a field named \<^verbatim>\<open>hasOwnProperty\<close>: with
  \<^verbatim>\<open>hasOwnProperty: true\<close> in the target's options the expanded options have own,
  non-empty \<^verbatim>\<open>code\<close>, \<^verbatim>\<open>specs\<close> and \<^verbatim>\<open>mutate\<close>, so all six checks pass, yet the call
  \<^verbatim>\<open>opts.hasOwnProperty('code')\<close> raises a \<open>TypeError\<close> and no options are returned.
\<close>

theorem shadowed_hasOwnProperty_raises:
  "expandOptions fsEnv (mergedOptions (Some sampleOpts) (Some [(''hasOwnProperty'', Bool True)])) =
     Inr (expandedSample @ [(''hasOwnProperty'', Bool True)]) \<and>
   firstOutcome (expandedSample @ [(''hasOwnProperty'', Bool True)]) checksInOrder = Inr None \<and>
   getOptions fsEnv (Some sampleOpts) (Some [(''hasOwnProperty'', Bool True)]) host0 =
     (Inl TypeError, \<lparr>log_level = Some (Str ''INFO''), warnings = []\<rparr>)"
  by (simp add: model_defs checksInOrder_def nonEmptyField_def)

theorem reporters_default_iff_absent_witness:
  "resolvedField (getOptions fsEnv (Some sampleOpts) None host0) ''reporters'' =
     Some DEFAULT_REPORTER \<and>
   resolvedField (getOptions fsEnv (Some sampleOpts) (Some [(''reporters'', Obj [])]) host0)
     ''reporters'' = Some (Obj [])"
proof -
  obtain r where r: "fst (getOptions fsEnv (Some sampleOpts) None host0) = Inr (Obj r)"
    by (simp add: run_sample)
  have a: "\<not> ownKey (mergedOptions (Some sampleOpts) None) ''reporters''"
    "\<not> ownKey (mergedOptions (Some sampleOpts) None) ''hasOwnProperty''"
    by (simp_all add: model_defs)
  obtain r' where r': "fst (getOptions fsEnv (Some sampleOpts) (Some [(''reporters'', Obj [])]) host0)
      = Inr (Obj r')"
    by (simp add: model_defs)
  have b: "ownKey (mergedOptions (Some sampleOpts) (Some [(''reporters'', Obj [])])) ''reporters''"
    "\<not> ownKey (mergedOptions (Some sampleOpts) (Some [(''reporters'', Obj [])])) ''hasOwnProperty''"
    "map_of (mergedOptions (Some sampleOpts) (Some [(''reporters'', Obj [])])) ''reporters'' =
       Some (Obj [])"
    by (simp_all add: model_defs)
  from reporters_default_iff_absent [OF r a(2)] a(1)
    reporters_default_iff_absent [OF r' b(2)] b(1,3) r r'
  show ?thesis
    by (simp add: resolvedField_def)
qed

text \<open>
  Claim C4 as stated fails when a layer sets \<^verbatim>\<open>hasOwnProperty\<close> to a function: with a
  function that returns \<^verbatim>\<open>true\<close> the options pass validation and are returned, and the
  merged object has no own \<^verbatim>\<open>reporters\<close> key, yet no default is injected.
\<close>

theorem shadowed_hasOwnProperty_suppresses_default:
  "\<not> ownKey (mergedOptions (Some sampleOpts) (Some [(''hasOwnProperty'', Fn ''yes'' 0 [])]))
       ''reporters'' \<and>
   resolvedField
     (getOptions fsEnv (Some sampleOpts) (Some [(''hasOwnProperty'', Fn ''yes'' 0 [])]) host0)
     ''code'' = Some (Arr [Str ''src/a.js'', Str ''src/b.js''] []) \<and>
   resolvedField
     (getOptions fsEnv (Some sampleOpts) (Some [(''hasOwnProperty'', Fn ''yes'' 0 [])]) host0)
     ''reporters'' = None"
  by (simp add: model_defs)

theorem ignore_injection_witness:
  "resolvedField (getOptions fsEnv (Some sampleOpts) (Some [(''ignore'', Arr [Str ''foo''] [])]) host0)
     ''ignore'' = Some (Arr [DEFAULT_IGNORE, Str ''foo''] []) \<and>
   resolvedField (getOptions fsEnv (Some sampleOpts) (Some [(''ignore'', Str ''foo'')]) host0)
     ''ignore'' = Some (Arr [DEFAULT_IGNORE, Str ''foo''] []) \<and>
   resolvedField (getOptions fsEnv (Some sampleOpts) None host0) ''ignore'' = Some DEFAULT_IGNORE \<and>
   resolvedField
     (getOptions fsEnv (Some sampleOpts) (Some [(''discardDefaultIgnore'', Bool True)]) host0)
     ''ignore'' = None"
proof -
  let ?l1 = "Some [(''ignore'', Arr [Str ''foo''] [])]"
  let ?l2 = "Some [(''ignore'', Str ''foo'')]"
  let ?l3 = "Some [(''discardDefaultIgnore'', Bool True)]"
  obtain r1 where r1: "fst (getOptions fsEnv (Some sampleOpts) ?l1 host0) = Inr (Obj r1)"
    by (simp add: model_defs)
  obtain r2 where r2: "fst (getOptions fsEnv (Some sampleOpts) ?l2 host0) = Inr (Obj r2)"
    by (simp add: model_defs)
  obtain r0 where r0: "fst (getOptions fsEnv (Some sampleOpts) None host0) = Inr (Obj r0)"
    by (simp add: run_sample)
  obtain r3 where r3: "fst (getOptions fsEnv (Some sampleOpts) ?l3 host0) = Inr (Obj r3)"
    by (simp add: model_defs)
  have m1: "js_get (mergedOptions (Some sampleOpts) ?l1) ''ignore'' = Arr [Str ''foo''] []"
    "js_get (mergedOptions (Some sampleOpts) ?l1) ''discardDefaultIgnore'' = Undefined"
    by (simp_all add: model_defs)
  have m2: "js_get (mergedOptions (Some sampleOpts) ?l2) ''ignore'' = Str ''foo''"
    "js_get (mergedOptions (Some sampleOpts) ?l2) ''discardDefaultIgnore'' = Undefined"
    by (simp_all add: model_defs)
  have m0: "\<not> ownKey (mergedOptions (Some sampleOpts) None) ''ignore''"
    "js_get (mergedOptions (Some sampleOpts) None) ''discardDefaultIgnore'' = Undefined"
    by (simp_all add: model_defs)
  have m3: "map_of (mergedOptions (Some sampleOpts) ?l3) ''ignore'' = None"
    "js_get (mergedOptions (Some sampleOpts) ?l3) ''discardDefaultIgnore'' = Bool True"
    by (simp_all add: model_defs)
  from ignore_injection [OF r1] ignore_injection [OF r2] ignore_injection [OF r0]
    ignore_injection [OF r3] m1 m2 m0 m3 r1 r2 r0 r3
  show ?thesis
    by (simp add: resolvedField_def)
qed

text \<open>
  Claim C3 as stated fails for a supplied value that is falsy: with \<^verbatim>\<open>ignore: ''\<close> in the
  target's options the resolved \<^verbatim>\<open>ignore\<close> is the bare built-in pattern, not the list of
  the built-in pattern and the supplied one.
\<close>

theorem falsy_ignore_not_prepended:
  "ownKey (mergedOptions (Some sampleOpts) (Some [(''ignore'', Str [])])) ''ignore'' \<and>
   \<not> js_truthy
       (js_get (mergedOptions (Some sampleOpts) (Some [(''ignore'', Str [])]))
          ''discardDefaultIgnore'') \<and>
   resolvedField (getOptions fsEnv (Some sampleOpts) (Some [(''ignore'', Str [])]) host0)
     ''ignore'' = Some DEFAULT_IGNORE \<and>
   resolvedField (getOptions fsEnv (Some sampleOpts) (Some [(''ignore'', Str [])]) host0)
     ''ignore'' \<noteq> Some (Arr [DEFAULT_IGNORE, Str []] [])"
  by (simp add: model_defs)

theorem falsy_ignore_discarded_witness:
  "ownKey (mergedOptions (Some (sampleOpts @ [(''ignore'', Str [])])) None) ''ignore'' \<and>
   resolvedField (getOptions fsEnv (Some (sampleOpts @ [(''ignore'', Str [])])) None host0)
     ''ignore'' = Some DEFAULT_IGNORE"
proof -
  let ?g = "Some (sampleOpts @ [(''ignore'', Str [])])"
  obtain r where r: "fst (getOptions fsEnv ?g None host0) = Inr (Obj r)"
    by (simp add: model_defs)
  have h: "ownKey (mergedOptions ?g None) ''ignore''"
    "\<not> js_truthy (js_get (mergedOptions ?g None) ''ignore'')"
    "\<not> js_truthy (js_get (mergedOptions ?g None) ''discardDefaultIgnore'')"
    by (simp_all add: model_defs)
  from falsy_ignore_discarded [OF r h] r h(1) show ?thesis
    by (simp add: resolvedField_def)
qed

theorem missing_field_unreachable_witness:
  "ownKey expandedWithoutSpecs ''specs'' \<and>
   firstOutcome expandedWithoutSpecs checksInOrder = Inr (Some SpecsNonEmpty) \<and>
   fst (getOptions fsEnv (Some [(''code'', Str ''src/*.js''), (''mutate'', Str ''src/a.js'')])
          None host0) = Inr Null \<and>
   warnings (snd (getOptions fsEnv
       (Some [(''code'', Str ''src/*.js''), (''mutate'', Str ''src/a.js'')]) None host0)) =
     [''Not all required options have been set properly. Specs property is empty'']"
proof -
  let ?g = "Some [(''code'', Str ''src/*.js''), (''mutate'', Str ''src/a.js'')]"
  have n: "\<not> ownKey (mergedOptions ?g None) ''hasOwnProperty''"
    by (simp add: ownKey_def merged_without_specs DEFAULT_OPTIONS_def)
  from missing_field_unreachable [of fsEnv
      "DEFAULT_OPTIONS @ [(''code'', Str ''src/*.js''), (''mutate'', Str ''src/a.js'')]"
      expandedWithoutSpecs ?g None host0]
    n expand_without_specs firstOutcome_without_specs run_without_specs
  show ?thesis
    by simp
qed

text \<open>
  Claim C6 as stated fails when a layer sets \<^verbatim>\<open>hasOwnProperty\<close> to a function: with a
  function that returns \<^verbatim>\<open>false\<close> the expanded options have an own \<^verbatim>\<open>code\<close> field, yet
  validation reports that field as missing.
\<close>

theorem shadowed_hasOwnProperty_reports_missing:
  "expandOptions fsEnv
     (mergedOptions (Some sampleOpts) (Some [(''hasOwnProperty'', Fn ''no'' 0 [])])) =
     Inr (expandedSample @ [(''hasOwnProperty'', Fn ''no'' 0 [])]) \<and>
   ownKey (expandedSample @ [(''hasOwnProperty'', Fn ''no'' 0 [])]) ''code'' \<and>
   getOptions fsEnv (Some sampleOpts) (Some [(''hasOwnProperty'', Fn ''no'' 0 [])]) host0 =
     (Inr Null,
      \<lparr>log_level = Some (Str ''INFO''),
       warnings =
         [''Not all required options have been set properly. Options has no own code property'']\<rparr>)"
  by (simp add: model_defs)

theorem karma_notIncluded_expanded_witness:
  "js_get (mergedOptions (Some sampleOpts)
      (Some [(''karma'', Obj [(''notIncluded'', Arr [Str ''src/*.js'', Str ''src/b.js''] [])])]))
      ''karma'' = Obj [(''notIncluded'', Arr [Str ''src/*.js'', Str ''src/b.js''] [])] \<and>
   resolvedField (getOptions fsEnv (Some sampleOpts)
      (Some [(''karma'', Obj [(''notIncluded'', Arr [Str ''src/*.js'', Str ''src/b.js''] [])])]) host0)
      ''karma'' = Some (Obj [(''notIncluded'', Arr [Str ''src/a.js'', Str ''src/b.js''] [])])"
proof -
  let ?kvs = "[(''notIncluded'', Arr [Str ''src/*.js'', Str ''src/b.js''] [])]"
  let ?l = "Some [(''karma'', Obj ?kvs)]"
  obtain r where r: "fst (getOptions fsEnv (Some sampleOpts) ?l host0) = Inr (Obj r)"
    by (simp add: model_defs)
  have k: "js_get (mergedOptions (Some sampleOpts) ?l) ''karma'' = Obj ?kvs"
    by (simp add: model_defs)
  have b: "js_get (mergedOptions (Some sampleOpts) ?l) ''basePath'' = Str ''.''"
    by (simp add: model_defs)
  have o: "ownKey ?kvs ''notIncluded''"
    by (simp add: ownKey_def)
  have x: "expandFiles fsEnv (js_get ?kvs ''notIncluded'') (Str ''.'') =
      Inr [''src/a.js'', ''src/b.js'']"
    by (simp add: model_defs)
  from karma_notIncluded_expanded [OF k o, of fsEnv r "Some sampleOpts" ?l host0 r] r k b x
  show ?thesis
    by (auto simp: resolvedField_def pathArray_def js_set_def)
qed

theorem karma_without_notIncluded_witness:
  "resolvedField (getOptions fsEnv (Some sampleOpts)
      (Some [(''karma'', Obj [(''configFile'', Str ''karma.conf.js'')])]) host0) ''karma'' =
     Some (Obj [(''configFile'', Str ''karma.conf.js''), (''notIncluded'', Arr [] [])]) \<and>
   resolvedField (getOptions fsEnv (Some sampleOpts)
      (Some [(''karma'', Arr [Str ''karma.conf.js''] [])]) host0) ''karma'' =
     Some (Arr [Str ''karma.conf.js''] [(''notIncluded'', Arr [] [])]) \<and>
   resolvedField (getOptions fsEnv (Some sampleOpts) (Some [(''karma'', Bool False)]) host0)
     ''karma'' = Some (Bool False) \<and>
   resolvedField (getOptions fsEnv (Some sampleOpts) None host0) ''karma'' = None"
proof -
  let ?kvs = "[(''configFile'', Str ''karma.conf.js'')]"
  let ?l1 = "Some [(''karma'', Obj ?kvs)]"
  let ?l2 = "Some [(''karma'', Bool False)]"
  let ?l3 = "Some [(''karma'', Arr [Str ''karma.conf.js''] [])]"
  obtain r1 where r1: "fst (getOptions fsEnv (Some sampleOpts) ?l1 host0) = Inr (Obj r1)"
    by (simp add: model_defs)
  obtain r2 where r2: "fst (getOptions fsEnv (Some sampleOpts) ?l2 host0) = Inr (Obj r2)"
    by (simp add: model_defs)
  obtain r3 where r3: "fst (getOptions fsEnv (Some sampleOpts) ?l3 host0) = Inr (Obj r3)"
    by (simp add: model_defs)
  obtain r0 where r0: "fst (getOptions fsEnv (Some sampleOpts) None host0) = Inr (Obj r0)"
    by (simp add: run_sample)
  have k1: "js_get (mergedOptions (Some sampleOpts) ?l1) ''karma'' = Obj ?kvs"
    "\<not> ownKey ?kvs ''notIncluded''"
    by (simp_all add: model_defs)
  have k3: "js_get (mergedOptions (Some sampleOpts) ?l3) ''karma'' = Arr [Str ''karma.conf.js''] []"
    "\<not> ownKey [] ''notIncluded''"
    by (simp_all add: model_defs)
  have k2: "map_of (mergedOptions (Some sampleOpts) ?l2) ''karma'' = Some (Bool False)"
    "js_get (mergedOptions (Some sampleOpts) ?l2) ''karma'' = Bool False"
    by (simp_all add: model_defs)
  have k0: "map_of (mergedOptions (Some sampleOpts) None) ''karma'' = None"
    "js_get (mergedOptions (Some sampleOpts) None) ''karma'' = Undefined"
    by (simp_all add: model_defs)
  from karma_without_notIncluded [of "mergedOptions (Some sampleOpts) ?l1" ?kvs fsEnv r1
      "Some sampleOpts" ?l1 host0 r1]
    karma_without_notIncluded [of "mergedOptions (Some sampleOpts) ?l3" "[]" fsEnv r3
      "Some sampleOpts" ?l3 host0 r3]
    karma_without_notIncluded [of "mergedOptions (Some sampleOpts) ?l2" ?kvs fsEnv r2
      "Some sampleOpts" ?l2 host0 r2]
    karma_without_notIncluded [of "mergedOptions (Some sampleOpts) None" ?kvs fsEnv r0
      "Some sampleOpts" None host0 r0]
    r1 r2 r3 r0 k1 k2 k3 k0
  show ?thesis
    by (simp add: resolvedField_def)
qed

text \<open>
  Claim C10 as stated fails for a truthy \<^verbatim>\<open>karma\<close> that is not an object: with
  \<^verbatim>\<open>karma: true\<close> the read of \<^verbatim>\<open>karma.notIncluded\<close> gives \<^verbatim>\<open>undefined\<close>, and the
  strict-mode assignment of the empty list to a property of a boolean raises a
  \<open>TypeError\<close>, so no options are returned.
\<close>

theorem truthy_primitive_karma_raises:
  "js_truthy (js_get (mergedOptions (Some sampleOpts) (Some [(''karma'', Bool True)])) ''karma'') \<and>
   js_member (js_get (mergedOptions (Some sampleOpts) (Some [(''karma'', Bool True)])) ''karma'')
     ''notIncluded'' = Inr Undefined \<and>
   fst (getOptions fsEnv (Some sampleOpts) (Some [(''karma'', Bool True)]) host0) = Inl TypeError"
  by (simp add: model_defs)







end
